theory Spec2Isabelle
  imports Main "HOL-Library.AList" "HOL-Library.Char_ord" "HOL-Library.List_Lexorder"
begin

section \<open>Python values and dictionaries\<close>

text \<open>
  The chunk manager keeps its registries as Python dictionaries loaded from and written to
  JSON documents. A Python value that can sit in such a registry is a JSON value; a
  dictionary is an association list in insertion order (Python dictionaries iterate in
  insertion order, and the model-switch loop depends on that order). \<open>None\<close> is
  \<open>JNull\<close>.
\<close>

datatype json =
    JNull
  | JBool bool
  | JInt int
  | JStr string
  | JList "json list"
  | JObj "(string \<times> json) list"

type_synonym dict = "(string \<times> json) list"

datatype error = TypeError | AttributeError | RuntimeError | JSONDecodeError | Unsupported

text \<open>Python truthiness, and the value-returning \<open>and\<close> / \<open>or\<close>.\<close>

fun truthy :: "json \<Rightarrow> bool" where
  "truthy JNull = False"
| "truthy (JBool b) = b"
| "truthy (JInt n) = (n \<noteq> 0)"
| "truthy (JStr s) = (s \<noteq> [])"
| "truthy (JList xs) = (xs \<noteq> [])"
| "truthy (JObj d) = (d \<noteq> [])"

definition py_and :: "json \<Rightarrow> json \<Rightarrow> json" where
  "py_and a b = (if truthy a then b else a)"

definition py_or :: "json \<Rightarrow> json \<Rightarrow> json" where
  "py_or a b = (if truthy a then a else b)"

text \<open>An optional string (\<open>str\<close> or \<open>None\<close>) as a Python value.\<close>

fun opt_json :: "string option \<Rightarrow> json" where
  "opt_json None = JNull"
| "opt_json (Some s) = JStr s"

text \<open>\<open>a or b\<close> on two optional strings: the empty string is falsy, like \<open>None\<close>.\<close>

fun opt_or :: "string option \<Rightarrow> string option \<Rightarrow> string option" where
  "opt_or None b = b"
| "opt_or (Some s) b = (if s = [] then b else Some s)"

text \<open>\<open>k in d\<close>, \<open>d.get(k)\<close>, \<open>d.get(k, default)\<close> and \<open>d[k] = v\<close>.\<close>

definition dict_has :: "dict \<Rightarrow> string \<Rightarrow> bool" where
  "dict_has d k = (map_of d k \<noteq> None)"

definition dict_get :: "dict \<Rightarrow> string \<Rightarrow> json" where
  "dict_get d k = (case map_of d k of None \<Rightarrow> JNull | Some v \<Rightarrow> v)"

definition dict_get_default :: "dict \<Rightarrow> string \<Rightarrow> json \<Rightarrow> json" where
  "dict_get_default d k dflt = (case map_of d k of None \<Rightarrow> dflt | Some v \<Rightarrow> v)"

definition dict_set :: "dict \<Rightarrow> string \<Rightarrow> json \<Rightarrow> dict" where
  "dict_set d k v = AList.update k v d"

text \<open>\<open>key.startswith('_')\<close>\<close>

fun startswith_underscore :: "string \<Rightarrow> bool" where
  "startswith_underscore [] = False"
| "startswith_underscore (c # cs) = (c = CHR ''_'')"

text \<open>\<open>isinstance(v, dict)\<close>\<close>

fun is_dict :: "json \<Rightarrow> bool" where
  "is_dict (JObj d) = True"
| "is_dict v = False"

subsection \<open>Decimal formatting\<close>

definition digit_char :: "nat \<Rightarrow> char" where
  "digit_char d = ''0123456789'' ! d"

fun digits :: "nat \<Rightarrow> string" where
  "digits n = (if n < 10 then [digit_char n] else digits (n div 10) @ [digit_char (n mod 10)])"

declare digits.simps [simp del]

text \<open>\<open>str(n)\<close> for a Python int.\<close>

definition py_str_int :: "int \<Rightarrow> string" where
  "py_str_int n = (if n < 0 then CHR ''-'' # digits (nat (- n)) else digits (nat n))"

definition zero_pad :: "nat \<Rightarrow> string \<Rightarrow> string" where
  "zero_pad w s = replicate (w - length s) CHR ''0'' @ s"

text \<open>The format specification \<open>{n:04d}\<close>: zero padding to width 4, the sign counted.\<close>

definition fmt04d :: "int \<Rightarrow> string" where
  "fmt04d n = (if n < 0 then CHR ''-'' # zero_pad 3 (digits (nat (- n)))
               else zero_pad 4 (digits (nat n)))"

section \<open>ChunkStatus\<close>

definition PENDING :: string where "PENDING = ''pending''"
definition TRAINING :: string where "TRAINING = ''training''"
definition TRAINED :: string where "TRAINED = ''trained''"
definition FAILED :: string where "FAILED = ''failed''"
definition RESTORED :: string where "RESTORED = ''restored''"
definition ARCHIVED :: string where "ARCHIVED = ''archived''"

section \<open>The manager's state\<close>

text \<open>
  What is on disk under the data directory: the three registry documents (absent,
  unparseable, or holding a JSON value), the per-chunk \<open>manifest.json\<close> and
  \<open>documents.json\<close> files keyed by chunk id, and the lines of
  \<open>history/operations.jsonl\<close>. A \<open>documents.json\<close> is read back with
  \<open>json.load\<close>, so it is absent, unparseable, or holds a JSON value (the list passed to
  \<open>create_chunk\<close> when the code wrote it). A \<open>manifest.json\<close> is only tested for
  existence and overwritten, never read. Chunk ids are taken to be plain directory names (as
  the ids the code issues are), so that distinct ids are distinct files. Adapter artifact
  directories are not part of the state.
\<close>

datatype file_content = Unparseable string | Parsed json

record disk =
  chunk_registry_file :: "file_content option"
  lora_registry_file :: "file_content option"
  model_registry_file :: "file_content option"
  manifest_files :: "string \<rightharpoonup> json"
  document_files :: "string \<rightharpoonup> file_content"
  operations_log :: "json list"

text \<open>
  The \<open>ChunkManager\<close> object: the disk plus the instance attributes.
  \<open>current_model\<close> is \<open>None\<close> or an identity hash; the counters are Python ints.
\<close>

record manager = disk +
  data_dir :: string
  chunk_registry :: dict
  lora_registry :: dict
  model_registry :: dict
  current_model :: "string option"
  chunk_counter :: int
  lora_counter :: int

text \<open>
  \<open>datetime.now().isoformat()\<close> is an input of each operation: the parameter \<open>now\<close>
  stands for the clock readings taken during the call.
\<close>

definition save_chunk_registry :: "manager \<Rightarrow> manager" where
  "save_chunk_registry s =
     (let reg = dict_set (chunk_registry s) ''_counter'' (JInt (chunk_counter s))
      in s\<lparr>chunk_registry := reg, chunk_registry_file := Some (Parsed (JObj reg))\<rparr>)"

definition save_lora_registry :: "manager \<Rightarrow> manager" where
  "save_lora_registry s =
     (let reg = dict_set (lora_registry s) ''_counter'' (JInt (lora_counter s))
      in s\<lparr>lora_registry := reg, lora_registry_file := Some (Parsed (JObj reg))\<rparr>)"

definition save_model_registry :: "manager \<Rightarrow> manager" where
  "save_model_registry s = s\<lparr>model_registry_file := Some (Parsed (JObj (model_registry s)))\<rparr>"

definition log_operation :: "manager \<Rightarrow> string \<Rightarrow> dict \<Rightarrow> string \<Rightarrow> manager" where
  "log_operation s operation details now =
     s\<lparr>operations_log := operations_log s @
        [JObj [(''timestamp'', JStr now), (''operation'', JStr operation),
               (''details'', JObj details)]]\<rparr>"

section \<open>Chunk management\<close>

definition history_entry :: "string \<Rightarrow> string \<Rightarrow> string \<Rightarrow> json" where
  "history_entry now action details =
     JObj [(''timestamp'', JStr now), (''action'', JStr action), (''details'', JStr details)]"

text \<open>
  \<open>_update_chunk_status\<close>. An unknown chunk id returns at once. Item assignment on a
  registry value that is not a dictionary raises \<open>TypeError\<close>; \<open>append\<close> on a history
  that is not a list raises \<open>AttributeError\<close>.
\<close>

definition update_chunk_status ::
  "manager \<Rightarrow> string \<Rightarrow> string \<Rightarrow> string \<Rightarrow> string \<Rightarrow> error + manager" where
  "update_chunk_status s chunk_id status details now =
     (if \<not> dict_has (chunk_registry s) chunk_id then Inr s
      else case dict_get (chunk_registry s) chunk_id of
        JObj e \<Rightarrow>
          (let e1 = dict_set e ''status'' (JStr status)
           in case dict_get_default e1 ''history'' (JList []) of
             JList h \<Rightarrow>
               (let e2 = dict_set e1 ''history'' (JList (h @ [history_entry now status details]));
                    s1 = s\<lparr>chunk_registry := dict_set (chunk_registry s) chunk_id (JObj e2)\<rparr>;
                    s2 = save_chunk_registry s1;
                    s3 = (if manifest_files s2 chunk_id \<noteq> None
                          then s2\<lparr>manifest_files := (manifest_files s2)
                                  (chunk_id \<mapsto> dict_get (chunk_registry s2) chunk_id)\<rparr>
                          else s2)
                in Inr (log_operation s3 ''chunk_status_changed''
                          [(''chunk_id'', JStr chunk_id), (''new_status'', JStr status),
                           (''details'', JStr details)] now))
           | _ \<Rightarrow> Inl AttributeError)
      | _ \<Rightarrow> Inl TypeError)"

definition mark_chunk_training :: "manager \<Rightarrow> string \<Rightarrow> string \<Rightarrow> error + manager" where
  "mark_chunk_training s chunk_id now =
     update_chunk_status s chunk_id TRAINING ''Training started'' now"

definition mark_chunk_trained ::
  "manager \<Rightarrow> string \<Rightarrow> string \<Rightarrow> string \<Rightarrow> error + manager" where
  "mark_chunk_trained s chunk_id lora_id now =
     (if dict_has (chunk_registry s) chunk_id
      then case dict_get (chunk_registry s) chunk_id of
             JObj e \<Rightarrow>
               update_chunk_status
                 (s\<lparr>chunk_registry := dict_set (chunk_registry s) chunk_id
                      (JObj (dict_set e ''lora_id'' (JStr lora_id)))\<rparr>)
                 chunk_id TRAINED (''Trained into LoRA '' @ lora_id) now
           | _ \<Rightarrow> Inl TypeError
      else update_chunk_status s chunk_id TRAINED (''Trained into LoRA '' @ lora_id) now)"

definition mark_chunk_failed ::
  "manager \<Rightarrow> string \<Rightarrow> string \<Rightarrow> string \<Rightarrow> error + manager" where
  "mark_chunk_failed s chunk_id err now =
     update_chunk_status s chunk_id FAILED (''Training failed: '' @ err) now"

definition mark_chunk_restored :: "manager \<Rightarrow> string \<Rightarrow> string \<Rightarrow> error + manager" where
  "mark_chunk_restored s chunk_id now =
     update_chunk_status s chunk_id RESTORED ''Data restored to RAG'' now"

text \<open>
  \<open>[doc.get('id', str(i)) for i, doc in enumerate(documents)]\<close>: a document that is
  not a dictionary has no \<open>get\<close>.
\<close>

fun document_ids_from :: "int \<Rightarrow> json list \<Rightarrow> error + json list" where
  "document_ids_from i [] = Inr []"
| "document_ids_from i (doc # docs) =
     (case doc of
        JObj d \<Rightarrow>
          (case document_ids_from (i + 1) docs of
             Inl e \<Rightarrow> Inl e
           | Inr ids \<Rightarrow> Inr (dict_get_default d ''id'' (JStr (py_str_int i)) # ids))
      | _ \<Rightarrow> Inl AttributeError)"

text \<open>\<open>DataChunk.to_dict\<close> of the chunk that \<open>create_chunk\<close> builds.\<close>

definition new_chunk_dict ::
  "string \<Rightarrow> string \<Rightarrow> string option \<Rightarrow> json list \<Rightarrow> int \<Rightarrow> string option \<Rightarrow> json \<Rightarrow> dict" where
  "new_chunk_dict chunk_id now model ids n character metadata =
     [(''chunk_id'', JStr chunk_id),
      (''created_at'', JStr now),
      (''status'', JStr PENDING),
      (''model_identity_hash'', opt_json model),
      (''lora_id'', JNull),
      (''document_ids'', JList ids),
      (''document_count'', JInt n),
      (''character'', opt_json character),
      (''metadata'', py_or metadata (JObj [])),
      (''history'', JList [history_entry now ''created'' (py_str_int n @ '' documents'')])]"

definition create_chunk ::
  "manager \<Rightarrow> json list \<Rightarrow> string option \<Rightarrow> json \<Rightarrow> string \<Rightarrow> error + (dict \<times> manager)" where
  "create_chunk s documents character metadata now =
     (let s0 = s\<lparr>chunk_counter := chunk_counter s + 1\<rparr>;
          chunk_id = ''chunk_'' @ fmt04d (chunk_counter s0)
      in case document_ids_from 0 documents of
           Inl e \<Rightarrow> Inl e
         | Inr ids \<Rightarrow>
            (let chunk = new_chunk_dict chunk_id now (current_model s0) ids
                           (int (length documents)) character metadata;
                 s1 = s0\<lparr>manifest_files := (manifest_files s0)(chunk_id \<mapsto> JObj chunk)\<rparr>;
                 s2 = s1\<lparr>document_files := (document_files s1)(chunk_id \<mapsto> Parsed (JList documents))\<rparr>;
                 s3 = s2\<lparr>chunk_registry := dict_set (chunk_registry s2) chunk_id (JObj chunk)\<rparr>;
                 s4 = save_chunk_registry s3
             in Inr (chunk,
                  log_operation s4 ''chunk_created''
                    [(''chunk_id'', JStr chunk_id),
                     (''document_count'', JInt (int (length documents))),
                     (''character'', opt_json character),
                     (''model'', opt_json (current_model s4))] now)))"

definition get_chunk :: "manager \<Rightarrow> string \<Rightarrow> json" where
  "get_chunk s chunk_id = dict_get (chunk_registry s) chunk_id"

text \<open>
  \<open>get_chunk_documents\<close>: \<open>None\<close> when the file does not exist, what
  \<open>json.load\<close> returns when it does; \<open>json.load\<close> raises on a file that does not
  parse, and nothing here catches it.
\<close>

definition get_chunk_documents :: "manager \<Rightarrow> string \<Rightarrow> error + json" where
  "get_chunk_documents s chunk_id =
     (case document_files s chunk_id of
        None \<Rightarrow> Inr JNull
      | Some (Unparseable raw) \<Rightarrow> Inl JSONDecodeError
      | Some (Parsed j) \<Rightarrow> Inr j)"

subsection \<open>Registry scans\<close>

text \<open>
  The query loops all have the shape
  \<^verbatim>\<open>for key, data in registry.items():
      if key.startswith('_'): continue
      if not isinstance(data, dict): continue
      if <selected>: <mutate data>; result.append(data)\<close>
  The selected dictionaries are mutated in place, so the registry in memory changes too:
  the scan returns the registry after the loop and the result list.
\<close>

fun scan_registry ::
  "(string \<Rightarrow> dict \<Rightarrow> bool) \<Rightarrow> (string \<Rightarrow> dict \<Rightarrow> dict) \<Rightarrow> dict \<Rightarrow> dict \<times> json list" where
  "scan_registry sel tag [] = ([], [])"
| "scan_registry sel tag ((k, v) # rest) =
     (let (reg, res) = scan_registry sel tag rest
      in case v of
           JObj e \<Rightarrow>
             (if \<not> startswith_underscore k \<and> sel k e
              then ((k, JObj (tag k e)) # reg, JObj (tag k e) # res)
              else ((k, v) # reg, res))
         | _ \<Rightarrow> ((k, v) # reg, res))"

text \<open>\<open>data['chunk_id'] = chunk_id\<close>\<close>

definition tag_chunk_id :: "string \<Rightarrow> dict \<Rightarrow> dict" where
  "tag_chunk_id k e = dict_set e ''chunk_id'' (JStr k)"

definition get_untrained_chunks :: "manager \<Rightarrow> json list \<times> manager" where
  "get_untrained_chunks s =
     (let (reg, res) = scan_registry
            (\<lambda>k e. dict_get e ''status'' \<in> set [JStr PENDING, JStr FAILED, JStr RESTORED])
            tag_chunk_id (chunk_registry s)
      in (res, s\<lparr>chunk_registry := reg\<rparr>))"

text \<open>The selection of \<open>get_restorable_chunks\<close> for one registry entry.\<close>

definition can_restore :: "json \<Rightarrow> json \<Rightarrow> string option \<Rightarrow> bool" where
  "can_restore status chunk_model target =
     (if status = JStr TRAINED \<and> chunk_model \<noteq> opt_json target then True
      else if status = JStr FAILED then True
      else if status = JStr RESTORED then True
      else False)"

definition restorable_sel :: "(string \<rightharpoonup> file_content) \<Rightarrow> string option \<Rightarrow> string \<Rightarrow> dict \<Rightarrow> bool" where
  "restorable_sel docs target k e =
     (can_restore (dict_get e ''status'') (dict_get e ''model_identity_hash'') target
      \<and> docs k \<noteq> None)"

definition restorable_tag :: "string \<Rightarrow> dict \<Rightarrow> dict" where
  "restorable_tag k e =
     dict_set (dict_set e ''chunk_id'' (JStr k)) ''restore_reason''
       (if dict_get e ''status'' = JStr TRAINED then JStr ''model_mismatch''
        else dict_get e ''status'')"

definition get_restorable_chunks :: "manager \<Rightarrow> string option \<Rightarrow> json list \<times> manager" where
  "get_restorable_chunks s model_identity_hash =
     (let target = opt_or model_identity_hash (current_model s);
          (reg, res) = scan_registry (restorable_sel (document_files s) target)
                         restorable_tag (chunk_registry s)
      in (res, s\<lparr>chunk_registry := reg\<rparr>))"

subsection \<open>Restoration\<close>

record restore_result =
  restored_chunks :: "string list"
  failed_chunks :: "string list"
  total_documents :: nat
  documents :: "json list"

text \<open>
  What \<open>all_documents.extend(documents)\<close> appends: the elements of a list, the
  characters of a string, the keys of a dictionary; a number is not iterable.
\<close>

fun py_iter :: "json \<Rightarrow> error + json list" where
  "py_iter (JList xs) = Inr xs"
| "py_iter (JStr cs) = Inr (map (\<lambda>c. JStr [c]) cs)"
| "py_iter (JObj d) = Inr (map (\<lambda>kv. JStr (fst kv)) d)"
| "py_iter v = Inl TypeError"

text \<open>
  The loop of \<open>restore_chunks_to_rag\<close>. An exception of \<open>get_chunk_documents\<close>
  leaves the loop and the operation. \<open>if documents:\<close> is false for a missing file
  (\<open>None\<close>) and for an empty list.
\<close>

fun restore_loop ::
  "string \<Rightarrow> string list \<Rightarrow> manager \<Rightarrow> json list \<Rightarrow> string list \<Rightarrow> string list \<Rightarrow>
   error + (manager \<times> json list \<times> string list \<times> string list)" where
  "restore_loop now [] s all_documents restored failed =
     Inr (s, all_documents, restored, failed)"
| "restore_loop now (chunk_id # rest) s all_documents restored failed =
     (case get_chunk_documents s chunk_id of
        Inl e \<Rightarrow> Inl e
      | Inr chunk_documents \<Rightarrow>
          (if truthy chunk_documents
           then case py_iter chunk_documents of
                  Inl e \<Rightarrow> Inl e
                | Inr docs \<Rightarrow>
                   (case mark_chunk_restored s chunk_id now of
                      Inl e \<Rightarrow> Inl e
                    | Inr s' \<Rightarrow>
                        restore_loop now rest s' (all_documents @ docs) (restored @ [chunk_id])
                          failed)
           else restore_loop now rest s all_documents restored (failed @ [chunk_id])))"

text \<open>\<open>[c['chunk_id'] for c in restorable]\<close>: the ids that the scan wrote into its results.\<close>

fun chunk_id_of :: "json \<Rightarrow> string" where
  "chunk_id_of (JObj e) = (case dict_get e ''chunk_id'' of JStr k \<Rightarrow> k | _ \<Rightarrow> [])"
| "chunk_id_of v = []"

definition restore_chunks_to_rag ::
  "manager \<Rightarrow> string list option \<Rightarrow> string \<Rightarrow> error + (restore_result \<times> manager)" where
  "restore_chunks_to_rag s chunk_ids now =
     (let (ids, s0) = (case chunk_ids of
                         None \<Rightarrow> (let (restorable, s') = get_restorable_chunks s None
                                  in (map chunk_id_of restorable, s'))
                       | Some ids \<Rightarrow> (ids, s))
      in case restore_loop now ids s0 [] [] [] of
           Inl e \<Rightarrow> Inl e
         | Inr (s1, all_documents, restored, failed) \<Rightarrow>
             Inr (\<lparr>restored_chunks = restored, failed_chunks = failed,
                   total_documents = length all_documents, documents = all_documents\<rparr>,
                  log_operation s1 ''chunks_restored''
                    [(''restored'', JList (map JStr restored)),
                     (''failed'', JList (map JStr failed)),
                     (''document_count'', JInt (int (length all_documents)))] now))"

subsection \<open>Sorted listings\<close>

text \<open>
  \<open>sorted(items, key=lambda c: c.get('created_at', ''), reverse=True)\<close>. The code
  stores ISO timestamps, which are strings and compare by code point; with
  \<open>reverse=True\<close> the sort stays stable. Keys that are not all strings are outside the
  model once a comparison is needed.
\<close>

fun created_at_key :: "json \<Rightarrow> json" where
  "created_at_key (JObj e) = dict_get_default e ''created_at'' (JStr [])"
| "created_at_key v = JNull"

fun is_str :: "json \<Rightarrow> bool" where
  "is_str (JStr s) = True"
| "is_str v = False"

fun str_of :: "json \<Rightarrow> string" where
  "str_of (JStr s) = s"
| "str_of v = []"

definition sorted_created_at_desc :: "json list \<Rightarrow> error + json list" where
  "sorted_created_at_desc xs =
     (if length xs \<le> 1 then Inr xs
      else if list_all (\<lambda>x. is_str (created_at_key x)) xs
      then Inr (rev (sort_key (\<lambda>x. str_of (created_at_key x)) (rev xs)))
      else Inl Unsupported)"

definition get_chunks_by_status ::
  "manager \<Rightarrow> string option \<Rightarrow> string option \<Rightarrow> error + (json list \<times> manager)" where
  "get_chunks_by_status s status model_hash =
     (let (reg, res) = scan_registry
            (\<lambda>k e. \<not> (truthy (opt_json status) \<and> dict_get e ''status'' \<noteq> opt_json status)
                 \<and> \<not> (truthy (opt_json model_hash)
                        \<and> dict_get e ''model_identity_hash'' \<noteq> opt_json model_hash))
            tag_chunk_id (chunk_registry s)
      in case sorted_created_at_desc res of
           Inl e \<Rightarrow> Inl e
         | Inr sorted_res \<Rightarrow> Inr (sorted_res, s\<lparr>chunk_registry := reg\<rparr>))"

section \<open>Model management\<close>

text \<open>
  The result of \<open>ModelFingerprint.identify_model\<close> on the model path. The fingerprinter
  reads the model files and hashes them; its output is an input of the operations below.
\<close>

record model_identity =
  path :: string
  name :: string
  detected_at :: string
  file_checksum :: "string option"
  config_fingerprint :: "string option"
  file_size :: "int option"
  model_type :: json
  architecture :: json
  identity_hash :: string

definition identity_dict :: "model_identity \<Rightarrow> dict" where
  "identity_dict i =
     [(''path'', JStr (path i)),
      (''name'', JStr (name i)),
      (''detected_at'', JStr (detected_at i)),
      (''file_checksum'', opt_json (file_checksum i)),
      (''config_fingerprint'', opt_json (config_fingerprint i)),
      (''file_size'', (case file_size i of None \<Rightarrow> JNull | Some n \<Rightarrow> JInt n)),
      (''model_type'', model_type i),
      (''architecture'', architecture i),
      (''identity_hash'', JStr (identity_hash i))]"

text \<open>\<open>info.get('times_used', 0) + 1\<close>\<close>

fun times_used_plus_one :: "json \<Rightarrow> error + json" where
  "times_used_plus_one (JInt n) = Inr (JInt (n + 1))"
| "times_used_plus_one (JBool b) = Inr (JInt (of_bool b + 1))"
| "times_used_plus_one v = Inl TypeError"

text \<open>
  \<open>register_model\<close>. The result dictionary is returned with the new state.
  \<open>model_changed\<close> is the value of \<open>previous_model and previous_model != identity_hash\<close>.
\<close>

definition register_model ::
  "manager \<Rightarrow> model_identity \<Rightarrow> string option \<Rightarrow> string \<Rightarrow> error + (dict \<times> manager)" where
  "register_model s idn friendly_name now =
     (let ih = identity_hash idn;
          identity = (if truthy (opt_json friendly_name)
                      then dict_set (identity_dict idn) ''friendly_name'' (opt_json friendly_name)
                      else identity_dict idn)
      in case dict_get_default (model_registry s) ''known_models'' (JObj []) of
        JObj known_models \<Rightarrow>
          (let is_new = \<not> dict_has known_models ih;
               previous_model = current_model s;
               model_changed = py_and (opt_json previous_model) (JBool (previous_model \<noteq> Some ih));
               stored =
                 (if is_new
                  then Inr (dict_set known_models ih
                         (JObj [(''identity'', JObj identity),
                                (''first_seen'', JStr now),
                                (''last_seen'', JStr now),
                                (''friendly_name'', opt_json (opt_or friendly_name (Some (name idn)))),
                                (''times_used'', JInt 1),
                                (''lora_ids'', JList []),
                                (''compatible_lora_ids'', JList [])]))
                  else case dict_get known_models ih of
                         JObj info \<Rightarrow>
                           (let info1 = dict_set info ''last_seen'' (JStr now)
                            in case times_used_plus_one (dict_get_default info1 ''times_used'' (JInt 0)) of
                                 Inl e \<Rightarrow> Inl e
                               | Inr n \<Rightarrow> Inr (dict_set known_models ih
                                                 (JObj (dict_set info1 ''times_used'' n))))
                       | _ \<Rightarrow> Inl TypeError)
           in case stored of
                Inl e \<Rightarrow> Inl e
              | Inr known_models' \<Rightarrow>
                 (case dict_get known_models' ih of
                    JObj info \<Rightarrow>
                      (let s1 = s\<lparr>model_registry :=
                                  dict_set (dict_set (model_registry s) ''known_models'' (JObj known_models'))
                                    ''current_model'' (JStr ih)\<rparr>;
                           s2 = s1\<lparr>current_model := Some ih\<rparr>;
                           s3 = save_model_registry s2;
                           result = [(''identity_hash'', JStr ih),
                                     (''identity'', JObj identity),
                                     (''is_new'', JBool is_new),
                                     (''model_changed'', model_changed),
                                     (''previous_model'', opt_json previous_model),
                                     (''friendly_name'',
                                        dict_get_default info ''friendly_name'' (JStr (name idn)))]
                       in Inr (result,
                            log_operation s3 ''model_registered''
                              [(''identity_hash'', JStr ih),
                               (''name'', JStr (name idn)),
                               (''is_new'', JBool is_new),
                               (''model_changed'', model_changed),
                               (''previous_model'', opt_json previous_model)] now))
                  | _ \<Rightarrow> Inl AttributeError))
      | _ \<Rightarrow> Inl TypeError)"

text \<open>
  \<open>detect_model_change\<close>, the sibling that computes the same flag as
  \<open>current_model is not None and current_model != identity_hash\<close>.
\<close>

definition detect_model_change :: "manager \<Rightarrow> model_identity \<Rightarrow> error + dict" where
  "detect_model_change s idn =
     (case dict_get_default (model_registry s) ''known_models'' (JObj []) of
        JObj known_models \<Rightarrow>
          Inr [(''changed'', JBool (current_model s \<noteq> None \<and> current_model s \<noteq> Some (identity_hash idn))),
               (''known'', JBool (dict_has known_models (identity_hash idn))),
               (''current_hash'', opt_json (current_model s)),
               (''new_hash'', JStr (identity_hash idn)),
               (''new_name'', JStr (name idn))]
      | _ \<Rightarrow> Inl Unsupported)"

section \<open>LoRA management\<close>

text \<open>
  \<open>get_compatible_loras\<close>: the records bound to the target model that are not deleted,
  newest first. This scan changes nothing.
\<close>

definition compatible_sel :: "string option \<Rightarrow> string \<Rightarrow> dict \<Rightarrow> bool" where
  "compatible_sel target k e =
     (dict_get e ''model_identity_hash'' = opt_json target
      \<and> dict_get e ''status'' \<noteq> JStr ''deleted'')"

definition get_compatible_loras :: "manager \<Rightarrow> string option \<Rightarrow> error + json list" where
  "get_compatible_loras s model_identity_hash =
     (let target = opt_or model_identity_hash (current_model s)
      in if \<not> truthy (opt_json target) then Inr []
         else sorted_created_at_desc
                (snd (scan_registry (compatible_sel target) (\<lambda>k e. e) (lora_registry s))))"

text \<open>\<open>data['lora_id'] = lora_id\<close>\<close>

definition tag_lora_id :: "string \<Rightarrow> dict \<Rightarrow> dict" where
  "tag_lora_id k e = dict_set e ''lora_id'' (JStr k)"

definition get_all_loras :: "manager \<Rightarrow> bool \<Rightarrow> error + (json list \<times> manager)" where
  "get_all_loras s include_deleted =
     (let (reg, res) = scan_registry
            (\<lambda>k e. \<not> (\<not> include_deleted \<and> dict_get e ''status'' = JStr ''deleted''))
            tag_lora_id (lora_registry s)
      in case sorted_created_at_desc res of
           Inl e \<Rightarrow> Inl e
         | Inr sorted_res \<Rightarrow> Inr (sorted_res, s\<lparr>lora_registry := reg\<rparr>))"

text \<open>\<open>mark_lora_unusable\<close>: an unknown id is ignored.\<close>

definition mark_lora_unusable ::
  "manager \<Rightarrow> string \<Rightarrow> string \<Rightarrow> string \<Rightarrow> error + manager" where
  "mark_lora_unusable s lora_id reason now =
     (if dict_has (lora_registry s) lora_id
      then case dict_get (lora_registry s) lora_id of
             JObj e \<Rightarrow>
               (let e1 = dict_set e ''status'' (JStr ''unusable'');
                    e2 = dict_set e1 ''unusable_reason'' (JStr reason);
                    e3 = dict_set e2 ''marked_unusable_at'' (JStr now);
                    s1 = s\<lparr>lora_registry := dict_set (lora_registry s) lora_id (JObj e3)\<rparr>;
                    s2 = save_lora_registry s1
                in Inr (log_operation s2 ''lora_marked_unusable''
                          [(''lora_id'', JStr lora_id), (''reason'', JStr reason)] now))
           | _ \<Rightarrow> Inl TypeError
      else Inr s)"

text \<open>
  The directory that \<open>delete_lora\<close> removes with \<open>shutil.rmtree\<close>. The adapter
  directories that \<open>register_lora\<close> makes are \<open>loras/model_<hash>/<lora_id>\<close> under
  the data directory. A path of that form with no \<open>..\<close> in it stays inside
  \<open>loras/model_<hash>\<close>, so its removal takes adapter files only, none of the files of
  the state. The removal of any other path is outside the model, and so are symbolic links
  and the errors of the file system.
\<close>

fun has_dotdot :: "string \<Rightarrow> bool" where
  "has_dotdot (a # b # cs) = ((a = CHR ''.'' \<and> b = CHR ''.'') \<or> has_dotdot (b # cs))"
| "has_dotdot cs = False"

definition adapter_dir :: "string \<Rightarrow> string \<Rightarrow> bool" where
  "adapter_dir d p \<longleftrightarrow>
     take (length (d @ ''/loras/model_'')) p = d @ ''/loras/model_''
     \<and> \<not> has_dotdot (drop (length d) p)"

text \<open>
  \<open>if delete_files and lora_data.get('path')\<close>, then \<open>Path(lora_data['path'])\<close> and
  the removal: \<open>Path\<close> of a value that is not a string raises \<open>TypeError\<close>.
\<close>

definition remove_files :: "manager \<Rightarrow> dict \<Rightarrow> bool \<Rightarrow> error + manager" where
  "remove_files s lora_data delete_files =
     (if delete_files \<and> truthy (dict_get lora_data ''path'')
      then case dict_get lora_data ''path'' of
             JStr p \<Rightarrow> if adapter_dir (data_dir s) p then Inr s else Inl Unsupported
           | _ \<Rightarrow> Inl TypeError
      else Inr s)"

text \<open>
  \<open>delete_lora\<close>. With \<open>delete_files\<close> the record's \<open>path\<close> is read first
  (\<open>AttributeError\<close> on a value without \<open>get\<close>).
\<close>

definition delete_lora ::
  "manager \<Rightarrow> string \<Rightarrow> bool \<Rightarrow> string \<Rightarrow> error + (bool \<times> manager)" where
  "delete_lora s lora_id delete_files now =
     (if \<not> dict_has (lora_registry s) lora_id then Inr (False, s)
      else case dict_get (lora_registry s) lora_id of
             JObj e \<Rightarrow>
               (case remove_files s e delete_files of
                  Inl err \<Rightarrow> Inl err
                | Inr s0 \<Rightarrow>
                   (let e1 = dict_set e ''status'' (JStr ''deleted'');
                        e2 = dict_set e1 ''deleted_at'' (JStr now);
                        s1 = s0\<lparr>lora_registry := dict_set (lora_registry s0) lora_id (JObj e2)\<rparr>;
                        s2 = save_lora_registry s1
                    in Inr (True, log_operation s2 ''lora_deleted''
                                    [(''lora_id'', JStr lora_id),
                                     (''files_deleted'', JBool delete_files)] now)))
           | _ \<Rightarrow> Inl (if delete_files then AttributeError else TypeError))"

text \<open>\<open>LoRARecord.to_dict\<close> of the record that \<open>register_lora\<close> builds.\<close>

definition new_lora_dict ::
  "string \<Rightarrow> string \<Rightarrow> string option \<Rightarrow> json \<Rightarrow> json \<Rightarrow> string list \<Rightarrow> string \<Rightarrow> json \<Rightarrow> json \<Rightarrow> dict" where
  "new_lora_dict lora_id now model model_name mtype chunk_ids lora_dir training_config metrics =
     [(''lora_id'', JStr lora_id),
      (''created_at'', JStr now),
      (''model_identity_hash'', opt_json model),
      (''model_name'', model_name),
      (''model_type'', mtype),
      (''chunk_ids'', JList (map JStr chunk_ids)),
      (''path'', JStr lora_dir),
      (''status'', JStr ''active''),
      (''training_config'', py_or training_config (JObj [])),
      (''metrics'', py_or metrics (JObj [])),
      (''notes'', JStr [])]"

text \<open>\<open>for chunk_id in chunk_ids: self.mark_chunk_trained(chunk_id, lora_id)\<close>\<close>

fun mark_all_trained :: "manager \<Rightarrow> string list \<Rightarrow> string \<Rightarrow> string \<Rightarrow> error + manager" where
  "mark_all_trained s [] lora_id now = Inr s"
| "mark_all_trained s (chunk_id # rest) lora_id now =
     (case mark_chunk_trained s chunk_id lora_id now of
        Inl e \<Rightarrow> Inl e
      | Inr s' \<Rightarrow> mark_all_trained s' rest lora_id now)"

text \<open>\<open>str(self.current_model)\<close> inside the f-string of the adapter directory.\<close>

fun py_str_opt :: "string option \<Rightarrow> string" where
  "py_str_opt None = ''None''"
| "py_str_opt (Some h) = h"

text \<open>
  The snapshot of the current model's display name and type, read from its known-models
  entry when there is one.
\<close>

definition model_snapshot :: "dict \<Rightarrow> string option \<Rightarrow> error + (json \<times> json)" where
  "model_snapshot known_models model =
     (case model of
        None \<Rightarrow> Inr (JNull, JNull)
      | Some h \<Rightarrow>
         (if \<not> dict_has known_models h then Inr (JNull, JNull)
          else case dict_get known_models h of
                 JObj info \<Rightarrow>
                   (case dict_get_default info ''identity'' (JObj []) of
                      JObj idn \<Rightarrow> Inr (dict_get_default info ''friendly_name'' (JStr []),
                                       dict_get_default idn ''model_type'' (JStr ''unknown''))
                    | _ \<Rightarrow> Inl AttributeError)
               | _ \<Rightarrow> Inl AttributeError))"

text \<open>The update of the current model's \<open>lora_ids\<close> in the models registry.\<close>

definition add_lora_to_model :: "manager \<Rightarrow> dict \<Rightarrow> string \<Rightarrow> error + manager" where
  "add_lora_to_model s known_models lora_id =
     (case current_model s of
        None \<Rightarrow> Inr s
      | Some h \<Rightarrow>
         (if \<not> dict_has known_models h then Inr s
          else case dict_get known_models h of
                 JObj info \<Rightarrow>
                   (case dict_get_default info ''lora_ids'' (JList []) of
                      JList ids \<Rightarrow>
                        (let ids' = (if JStr lora_id \<notin> set ids then ids @ [JStr lora_id] else ids);
                             known_models' = dict_set known_models h
                                               (JObj (dict_set info ''lora_ids'' (JList ids')));
                             s1 = s\<lparr>model_registry :=
                                      dict_set (model_registry s) ''known_models'' (JObj known_models')\<rparr>
                         in Inr (save_model_registry s1))
                    | _ \<Rightarrow> Inl Unsupported)
               | _ \<Rightarrow> Inl AttributeError))"

text \<open>
  \<open>register_lora\<close>. A \<open>known_models\<close> value that is not a dictionary is outside the
  model; the copy of the adapter files is outside the state.
\<close>

definition register_lora ::
  "manager \<Rightarrow> string list \<Rightarrow> string \<Rightarrow> json \<Rightarrow> json \<Rightarrow> string \<Rightarrow> error + (dict \<times> manager)" where
  "register_lora s chunk_ids lora_path training_config metrics now =
     (let s0 = s\<lparr>lora_counter := lora_counter s + 1\<rparr>;
          lora_id = ''lora_'' @ fmt04d (lora_counter s0)
      in case dict_get_default (model_registry s0) ''known_models'' (JObj []) of
        JObj known_models \<Rightarrow>
          (case model_snapshot known_models (current_model s0) of
             Inl e \<Rightarrow> Inl e
           | Inr (model_name, mtype) \<Rightarrow>
              (let model_lora_dir = data_dir s0 @ ''/loras/model_'' @ py_str_opt (current_model s0)
                                      @ ''/'' @ lora_id;
                   record = new_lora_dict lora_id now (current_model s0) model_name mtype
                              chunk_ids model_lora_dir training_config metrics;
                   s1 = s0\<lparr>lora_registry := dict_set (lora_registry s0) lora_id (JObj record)\<rparr>;
                   s2 = save_lora_registry s1
               in case add_lora_to_model s2 known_models lora_id of
                    Inl e \<Rightarrow> Inl e
                  | Inr s3 \<Rightarrow>
                     (case mark_all_trained s3 chunk_ids lora_id now of
                        Inl e \<Rightarrow> Inl e
                      | Inr s4 \<Rightarrow>
                          Inr (record,
                               log_operation s4 ''lora_registered''
                                 [(''lora_id'', JStr lora_id),
                                  (''model'', opt_json (current_model s4)),
                                  (''chunk_ids'', JList (map JStr chunk_ids)),
                                  (''path'', JStr model_lora_dir)] now))))
      | _ \<Rightarrow> Inl Unsupported)"

section \<open>Model switch handling\<close>

text \<open>
  The invalidation loop of \<open>handle_model_switch\<close> iterates over
  \<open>self.lora_registry.items()\<close> while \<open>mark_lora_unusable\<close> saves the registry, and
  saving writes the \<open>_counter\<close> key. When that adds a key, the dictionary has changed
  size and the iterator raises \<open>RuntimeError\<close> at its next step (\<open>n\<close> is the size at
  the start of the loop). The iterator yields the live value of each key.
\<close>

fun invalidate_loop ::
  "string \<Rightarrow> string \<Rightarrow> string \<Rightarrow> nat \<Rightarrow> string list \<Rightarrow> manager \<Rightarrow> json list \<Rightarrow>
   error + (manager \<times> json list)" where
  "invalidate_loop previous_model reason now n [] s unusable_loras =
     (if length (lora_registry s) \<noteq> n then Inl RuntimeError else Inr (s, unusable_loras))"
| "invalidate_loop previous_model reason now n (lora_id # rest) s unusable_loras =
     (if length (lora_registry s) \<noteq> n then Inl RuntimeError
      else case dict_get (lora_registry s) lora_id of
        JObj e \<Rightarrow>
          (if startswith_underscore lora_id
           then invalidate_loop previous_model reason now n rest s unusable_loras
           else if dict_get e ''model_identity_hash'' = JStr previous_model
                   \<and> dict_get e ''status'' = JStr ''active''
           then case mark_lora_unusable s lora_id reason now of
                  Inl err \<Rightarrow> Inl err
                | Inr s' \<Rightarrow>
                    invalidate_loop previous_model reason now n rest s'
                      (unusable_loras @ [dict_get (lora_registry s') lora_id])
           else invalidate_loop previous_model reason now n rest s unusable_loras)
      | _ \<Rightarrow> invalidate_loop previous_model reason now n rest s unusable_loras)"

text \<open>\<open>[l.get(key, '') for l in items]\<close> on a list of dictionaries.\<close>

fun get_or_empty :: "string \<Rightarrow> json \<Rightarrow> json" where
  "get_or_empty key (JObj e) = dict_get_default e key (JStr [])"
| "get_or_empty key v = JNull"

text \<open>\<open>sum(c.get('document_count', 0) for c in restorable_chunks)\<close>\<close>

fun sum_document_count :: "json list \<Rightarrow> error + int" where
  "sum_document_count [] = Inr 0"
| "sum_document_count (c # cs) =
     (case sum_document_count cs of
        Inl e \<Rightarrow> Inl e
      | Inr subtotal \<Rightarrow>
         (case (case c of JObj e \<Rightarrow> dict_get_default e ''document_count'' (JInt 0) | _ \<Rightarrow> JNull) of
            JInt n \<Rightarrow> Inr (n + subtotal)
          | JBool b \<Rightarrow> Inr (of_bool b + subtotal)
          | _ \<Rightarrow> Inl TypeError))"

definition handle_model_switch ::
  "manager \<Rightarrow> model_identity \<Rightarrow> string option \<Rightarrow> string \<Rightarrow> error + (dict \<times> manager)" where
  "handle_model_switch s idn friendly_name now =
     (let previous_model = current_model s
      in case register_model s idn friendly_name now of
        Inl e \<Rightarrow> Inl e
      | Inr (reg_result, s1) \<Rightarrow>
         (if \<not> truthy (dict_get reg_result ''model_changed'')
          then Inr ([(''changed'', JBool False),
                     (''message'', JStr ''Same model detected, no changes needed''),
                     (''model'', JObj reg_result)], s1)
          else
            (let new_model_hash = str_of (dict_get reg_result ''identity_hash'')
             in case (case previous_model of
                        None \<Rightarrow> Inr (s1, [])
                      | Some p \<Rightarrow>
                          (if p = [] then Inr (s1, [])
                           else invalidate_loop p
                                  (''Model changed from '' @ p @ '' to '' @ new_model_hash)
                                  now (length (lora_registry s1)) (map fst (lora_registry s1))
                                  s1 [])) of
                  Inl e \<Rightarrow> Inl e
                | Inr (s2, unusable_loras) \<Rightarrow>
                   (let (restorable_chunks, s3) = get_restorable_chunks s2 (Some new_model_hash)
                    in case get_compatible_loras s3 (Some new_model_hash) of
                         Inl e \<Rightarrow> Inl e
                       | Inr compatible_loras \<Rightarrow>
                          (case sum_document_count restorable_chunks of
                             Inl e \<Rightarrow> Inl e
                           | Inr doc_count \<Rightarrow>
                              (let result =
                                 [(''changed'', JBool True),
                                  (''previous_model'', opt_json previous_model),
                                  (''new_model'', JStr new_model_hash),
                                  (''model_info'', JObj reg_result),
                                  (''unusable_loras'', JList (map (get_or_empty ''lora_id'') unusable_loras)),
                                  (''unusable_lora_count'', JInt (int (length unusable_loras))),
                                  (''restorable_chunks'',
                                     JList (map (get_or_empty ''chunk_id'') restorable_chunks)),
                                  (''restorable_chunk_count'', JInt (int (length restorable_chunks))),
                                  (''restorable_document_count'', JInt doc_count),
                                  (''compatible_loras'',
                                     JList (map (get_or_empty ''lora_id'') compatible_loras)),
                                  (''compatible_lora_count'', JInt (int (length compatible_loras))),
                                  (''action_needed'', JBool (length restorable_chunks > 0))]
                               in Inr (result, log_operation s3 ''model_switch'' result now)))))))"

section \<open>Start-up\<close>

text \<open>
  \<open>_load_registry\<close>: a missing file and a file that \<open>json.load\<close> rejects both give
  the empty dictionary; nothing is written.
\<close>

definition load_registry :: "file_content option \<Rightarrow> json" where
  "load_registry f =
     (case f of
        None \<Rightarrow> JObj []
      | Some (Unparseable raw) \<Rightarrow> JObj []
      | Some (Parsed j) \<Rightarrow> j)"

text \<open>
  \<open>ChunkManager.__init__\<close>. A registry document that is not an object has no \<open>get\<close>.
  A stored \<open>current_model\<close> other than a string or null, and a stored \<open>_counter\<close>
  other than an integer, are outside the model.
\<close>

definition init :: "string \<Rightarrow> disk \<Rightarrow> error + manager" where
  "init dir d =
     (case (load_registry (chunk_registry_file d), load_registry (lora_registry_file d),
            load_registry (model_registry_file d)) of
        (JObj creg, JObj lreg, JObj mreg) \<Rightarrow>
          (case (dict_get_default mreg ''current_model'' JNull,
                 dict_get_default creg ''_counter'' (JInt 0),
                 dict_get_default lreg ''_counter'' (JInt 0)) of
             (JNull, JInt cc, JInt lc) \<Rightarrow>
               Inr (disk.extend d (manager.fields dir creg lreg mreg None cc lc))
           | (JStr h, JInt cc, JInt lc) \<Rightarrow>
               Inr (disk.extend d (manager.fields dir creg lreg mreg (Some h) cc lc))
           | _ \<Rightarrow> Inl Unsupported)
      | _ \<Rightarrow> Inl AttributeError)"

section \<open>ModelFingerprint: file checksums\<close>

text \<open>
  A file is its list of bytes. A \<open>hashlib\<close> object accumulates the bytes given to
  \<open>update\<close>; \<open>hexdigest\<close> is the digest function of the chosen algorithm (SHA-256 by
  default) applied to what was accumulated. The digest function is the parameter
  \<open>H\<close>. \<open>f.read(n)\<close> at a position returns the next \<open>n\<close> bytes, fewer at the end
  of the file.
\<close>

type_synonym bytes = "char list"

text \<open>
  The loop \<open>while True: data = f.read(chunk_size); if not data: break; h.update(data)\<close>,
  on the rest of the file and the bytes hashed so far.
\<close>

function read_all :: "nat \<Rightarrow> bytes \<Rightarrow> bytes \<Rightarrow> bytes" where
  "read_all chunk_size rest h =
     (let data = take chunk_size rest
      in if data = [] then h else read_all chunk_size (drop chunk_size rest) (h @ data))"
  by pat_completeness auto
termination
  by (relation "measure (\<lambda>(chunk_size, rest, h). length rest)") auto

declare read_all.simps [simp del]

definition compute_partial_checksum :: "(bytes \<Rightarrow> string) \<Rightarrow> bytes \<Rightarrow> int \<Rightarrow> string" where
  "compute_partial_checksum H file fsize =
     (let sample_size = 64 * 1024 * 1024;
          h1 = take sample_size file;
          h2 = h1 @ take sample_size (drop (nat (fsize div 2)) file);
          h3 = h2 @ take sample_size (drop (nat (max 0 (fsize - int sample_size))) file);
          h4 = h3 @ py_str_int fsize
      in ''partial_'' @ H h4)"

definition compute_file_checksum :: "(bytes \<Rightarrow> string) \<Rightarrow> bytes \<Rightarrow> nat \<Rightarrow> string" where
  "compute_file_checksum H file chunk_size =
     (let fsize = int (length file)
      in if fsize > 10 * 1024 * 1024 * 1024
         then compute_partial_checksum H file fsize
         else H (read_all chunk_size file []))"

section \<open>Sequences of operations\<close>

text \<open>
  The operations of the manager that change its state, as calls with their arguments. A
  query that tags the dictionaries it returns (and so changes the registry in memory) is
  an operation too. \<open>step\<close> runs one call at a clock reading and keeps the new state;
  \<open>run\<close> runs a sequence and stops at the first exception.
\<close>

datatype operation =
    RegisterModel model_identity "string option"
  | HandleModelSwitch model_identity "string option"
  | CreateChunk "json list" "string option" json
  | MarkChunkTraining string
  | MarkChunkTrained string string
  | MarkChunkFailed string string
  | MarkChunkRestored string
  | GetChunksByStatus "string option" "string option"
  | GetUntrainedChunks
  | GetRestorableChunks "string option"
  | RestoreChunksToRag "string list option"
  | RegisterLora "string list" string json json
  | GetAllLoras bool
  | MarkLoraUnusable string string
  | DeleteLora string bool

fun step :: "manager \<Rightarrow> operation \<Rightarrow> string \<Rightarrow> error + manager" where
  "step s (RegisterModel idn friendly_name) now = map_sum id snd (register_model s idn friendly_name now)"
| "step s (HandleModelSwitch idn friendly_name) now =
     map_sum id snd (handle_model_switch s idn friendly_name now)"
| "step s (CreateChunk docs character metadata) now =
     map_sum id snd (create_chunk s docs character metadata now)"
| "step s (MarkChunkTraining chunk_id) now = mark_chunk_training s chunk_id now"
| "step s (MarkChunkTrained chunk_id lora_id) now = mark_chunk_trained s chunk_id lora_id now"
| "step s (MarkChunkFailed chunk_id err) now = mark_chunk_failed s chunk_id err now"
| "step s (MarkChunkRestored chunk_id) now = mark_chunk_restored s chunk_id now"
| "step s (GetChunksByStatus status model_hash) now =
     map_sum id snd (get_chunks_by_status s status model_hash)"
| "step s GetUntrainedChunks now = Inr (snd (get_untrained_chunks s))"
| "step s (GetRestorableChunks model_hash) now = Inr (snd (get_restorable_chunks s model_hash))"
| "step s (RestoreChunksToRag chunk_ids) now = map_sum id snd (restore_chunks_to_rag s chunk_ids now)"
| "step s (RegisterLora chunk_ids lora_path training_config metrics) now =
     map_sum id snd (register_lora s chunk_ids lora_path training_config metrics now)"
| "step s (GetAllLoras include_deleted) now = map_sum id snd (get_all_loras s include_deleted)"
| "step s (MarkLoraUnusable lora_id reason) now = mark_lora_unusable s lora_id reason now"
| "step s (DeleteLora lora_id delete_files) now = map_sum id snd (delete_lora s lora_id delete_files now)"

fun run :: "manager \<Rightarrow> (operation \<times> string) list \<Rightarrow> error + manager" where
  "run s [] = Inr s"
| "run s ((opn, now) # rest) =
     (case step s opn now of Inl e \<Rightarrow> Inl e | Inr s' \<Rightarrow> run s' rest)"

section \<open>Example states\<close>

text \<open>A fresh installation: nothing on disk.\<close>

definition empty_disk :: disk where
  "empty_disk =
     \<lparr>chunk_registry_file = None, lora_registry_file = None, model_registry_file = None,
      manifest_files = Map.empty, document_files = Map.empty, operations_log = []\<rparr>"

text \<open>The manager that \<open>__init__\<close> builds on a fresh installation.\<close>

definition fresh :: manager where
  "fresh =
     \<lparr>chunk_registry_file = None, lora_registry_file = None, model_registry_file = None,
      manifest_files = Map.empty, document_files = Map.empty, operations_log = [],
      data_dir = ''data'', chunk_registry = [], lora_registry = [], model_registry = [],
      current_model = None, chunk_counter = 0, lora_counter = 0\<rparr>"

text \<open>Two model identities, as the fingerprinter would return them for two models.\<close>

definition model_a :: model_identity where
  "model_a =
     \<lparr>path = ''/m/a'', name = ''a'', detected_at = ''t0'', file_checksum = None,
      config_fingerprint = None, file_size = None, model_type = JNull, architecture = JNull,
      identity_hash = ''aaaaaaaaaaaaaaaa''\<rparr>"

definition model_b :: model_identity where
  "model_b =
     \<lparr>path = ''/m/b'', name = ''b'', detected_at = ''t0'', file_checksum = None,
      config_fingerprint = None, file_size = None, model_type = JNull, architecture = JNull,
      identity_hash = ''bbbbbbbbbbbbbbbb''\<rparr>"

text \<open>
  The entry that \<open>_update_chunk_status\<close> leaves for a chunk whose entry was \<open>e\<close>
  with history \<open>h\<close>: the new status, and one more history record.
\<close>

definition status_updated :: "dict \<Rightarrow> string \<Rightarrow> string \<Rightarrow> string \<Rightarrow> json list \<Rightarrow> dict" where
  "status_updated e status details now h =
     dict_set (dict_set e ''status'' (JStr status)) ''history''
       (JList (h @ [history_entry now status details]))"

text \<open>
  Modelled from the spec: the transition matrix of the chunk lifecycle (section 3.3),
  which the code does not contain. The pairs are the arrows of the diagram; ARCHIVED is
  terminal.
\<close>

definition spec_permitted :: "string \<Rightarrow> string \<Rightarrow> bool" where
  "spec_permitted old new =
     ((old, new) \<in> set [(PENDING, TRAINING), (PENDING, ARCHIVED), (TRAINING, TRAINED),
                         (TRAINING, FAILED), (TRAINED, RESTORED), (RESTORED, FAILED)])"

text \<open>
  One chunk with one document, created on a fresh installation after model \<open>a\<close> was
  registered; and the same chunk archived through the transition operation.
\<close>

definition doc1 :: json where
  "doc1 = JObj [(''id'', JStr ''d1''), (''text'', JStr ''x'')]"

definition after_register :: manager where
  "after_register = (case register_model fresh model_a None ''t1'' of Inr (r, s) \<Rightarrow> s | Inl e \<Rightarrow> fresh)"

definition one_chunk :: manager where
  "one_chunk = (case create_chunk after_register [doc1] None JNull ''t2'' of
                  Inr (c, s) \<Rightarrow> s | Inl e \<Rightarrow> fresh)"

definition archived_chunk :: manager where
  "archived_chunk = (case update_chunk_status one_chunk ''chunk_0001'' ARCHIVED ''Archived'' ''t3'' of
                       Inr s \<Rightarrow> s | Inl e \<Rightarrow> fresh)"

text \<open>
  The state that \<open>_update_chunk_status\<close> leaves when it wrote the entry \<open>e'\<close> for
  chunk \<open>c\<close>: registry and registry file, the manifest when it exists, one more log line.
\<close>

definition status_written :: "manager \<Rightarrow> string \<Rightarrow> dict \<Rightarrow> string \<Rightarrow> string \<Rightarrow> string \<Rightarrow> manager" where
  "status_written s c e' status details now =
     (let reg = dict_set (dict_set (chunk_registry s) c (JObj e')) ''_counter''
                  (JInt (chunk_counter s))
      in s\<lparr>chunk_registry := reg,
           chunk_registry_file := Some (Parsed (JObj reg)),
           manifest_files := (if manifest_files s c \<noteq> None
                              then (manifest_files s)(c \<mapsto> dict_get reg c)
                              else manifest_files s),
           operations_log := operations_log s @
             [JObj [(''timestamp'', JStr now), (''operation'', JStr ''chunk_status_changed''),
                    (''details'', JObj [(''chunk_id'', JStr c), (''new_status'', JStr status),
                                        (''details'', JStr details)])]]\<rparr>)"

text \<open>The registry entry of the archived chunk.\<close>

definition archived_entry :: dict where
  "archived_entry =
     [(''chunk_id'', JStr ''chunk_0001''), (''created_at'', JStr ''t2''),
      (''status'', JStr ''archived''),
      (''model_identity_hash'', JStr ''aaaaaaaaaaaaaaaa''),
      (''lora_id'', JNull), (''document_ids'', JList [JStr ''d1'']),
      (''document_count'', JInt 1), (''character'', JNull),
      (''metadata'', JObj []),
      (''history'',
       JList [history_entry ''t2'' ''created'' ''1 documents'',
              history_entry ''t3'' ''archived'' ''Archived''])]"

text \<open>
  What a status-marking operation on chunk \<open>c\<close> leaves alone: the other registry
  entries (the bookkeeping key \<open>_counter\<close> is rewritten with the counter, which
  changes nothing when it was in step), the counter, and everything when \<open>c\<close> is
  unknown.
\<close>

definition mark_frame :: "manager \<Rightarrow> string \<Rightarrow> manager \<Rightarrow> bool" where
  "mark_frame s c s' \<longleftrightarrow>
     (\<forall>k. k \<noteq> c \<longrightarrow> k \<noteq> ''_counter'' \<longrightarrow> map_of (chunk_registry s') k = map_of (chunk_registry s) k)
   \<and> (map_of (chunk_registry s) ''_counter'' = Some (JInt (chunk_counter s)) \<longrightarrow>
        (\<forall>k. k \<noteq> c \<longrightarrow> map_of (chunk_registry s') k = map_of (chunk_registry s) k))
   \<and> chunk_counter s' = chunk_counter s
   \<and> (\<not> dict_has (chunk_registry s) c \<longrightarrow> s' = s)"

text \<open>The chunk of \<open>one_chunk\<close> after its training failed.\<close>

definition failed_chunk :: manager where
  "failed_chunk = (case mark_chunk_failed one_chunk ''chunk_0001'' ''boom'' ''t3'' of
                     Inr s \<Rightarrow> s | Inl e \<Rightarrow> fresh)"

definition failed_entry :: dict where
  "failed_entry =
     [(''chunk_id'', JStr ''chunk_0001''), (''created_at'', JStr ''t2''),
      (''status'', JStr ''failed''),
      (''model_identity_hash'', JStr ''aaaaaaaaaaaaaaaa''),
      (''lora_id'', JNull), (''document_ids'', JList [JStr ''d1'']),
      (''document_count'', JInt 1), (''character'', JNull),
      (''metadata'', JObj []),
      (''history'',
       JList [history_entry ''t2'' ''created'' ''1 documents'',
              history_entry ''t3'' ''failed'' ''Training failed: boom''])]"

text \<open>
  The entries a registry scan selects, and what it makes of a selected entry.
\<close>

definition selected :: "(string \<Rightarrow> dict \<Rightarrow> bool) \<Rightarrow> string \<times> json \<Rightarrow> bool" where
  "selected sel p = (case snd p of JObj e \<Rightarrow> \<not> startswith_underscore (fst p) \<and> sel (fst p) e
                     | _ \<Rightarrow> False)"

definition tagged :: "(string \<Rightarrow> dict \<Rightarrow> dict) \<Rightarrow> string \<times> json \<Rightarrow> json" where
  "tagged tag p = (case snd p of JObj e \<Rightarrow> JObj (tag (fst p) e) | v \<Rightarrow> v)"
text \<open>
  A chunk id that \<open>_update_chunk_status\<close> can process without raising: it is not the
  bookkeeping key, and its registry value, when there is one, is a dictionary whose
  history (when present) is a list. Every entry the code writes is of this kind.
\<close>

fun is_list :: "json \<Rightarrow> bool" where
  "is_list (JList xs) = True"
| "is_list v = False"

definition markable :: "manager \<Rightarrow> string \<Rightarrow> bool" where
  "markable s c =
     (c \<noteq> ''_counter'' \<and>
      (case map_of (chunk_registry s) c of
         None \<Rightarrow> True
       | Some (JObj e) \<Rightarrow> is_list (dict_get_default e ''history'' (JList []))
       | Some v \<Rightarrow> False))"

definition has_status :: "manager \<Rightarrow> string \<Rightarrow> string \<Rightarrow> bool" where
  "has_status s c status =
     (case map_of (chunk_registry s) c of
        Some (JObj e) \<Rightarrow> dict_get e ''status'' = JStr status
      | _ \<Rightarrow> False)"

text \<open>
  A documents file that \<open>restore_chunks_to_rag\<close> can read: missing, or holding a list.
  What it reads there: nothing for a missing file.
\<close>

definition readable_documents :: "manager \<Rightarrow> string \<Rightarrow> bool" where
  "readable_documents s c =
     (case document_files s c of
        None \<Rightarrow> True
      | Some (Parsed (JList docs)) \<Rightarrow> True
      | Some v \<Rightarrow> False)"

definition documents_or_empty :: "manager \<Rightarrow> string \<Rightarrow> json list" where
  "documents_or_empty s c =
     (case document_files s c of Some (Parsed (JList docs)) \<Rightarrow> docs | _ \<Rightarrow> [])"

text \<open>A data directory whose chunk registry was replaced by the text \<open>{\<close>.\<close>

definition corrupt_disk :: disk where
  "corrupt_disk = empty_disk\<lparr>chunk_registry_file := Some (Unparseable ''{'')\<rparr>"

text \<open>
  The test of the invalidation loop on one adapter record, and the record that
  \<open>mark_lora_unusable\<close> leaves.
\<close>

definition active_for :: "string \<Rightarrow> string \<Rightarrow> dict \<Rightarrow> bool" where
  "active_for previous_model k e =
     (dict_get e ''model_identity_hash'' = JStr previous_model
      \<and> dict_get e ''status'' = JStr ''active'')"

definition marked_unusable :: "string \<Rightarrow> string \<Rightarrow> dict \<Rightarrow> dict" where
  "marked_unusable reason now e =
     dict_set (dict_set (dict_set e ''status'' (JStr ''unusable''))
                 ''unusable_reason'' (JStr reason))
       ''marked_unusable_at'' (JStr now)"

text \<open>
  The chunk of \<open>one_chunk\<close> trained into an adapter under model \<open>a\<close>
  (\<open>mark_chunk_training\<close>, then \<open>register_lora\<close>).
\<close>

definition with_lora :: manager where
  "with_lora =
     (case mark_chunk_training one_chunk ''chunk_0001'' ''t3'' of
        Inl e \<Rightarrow> fresh
      | Inr s \<Rightarrow>
         (case register_lora s [''chunk_0001''] ''/tmp/ad'' JNull JNull ''t4'' of
            Inl e \<Rightarrow> fresh
          | Inr (r, s') \<Rightarrow> s'))"

text \<open>
  The loop's test on the live value of a key, and the marked value of a key.
\<close>

definition matches :: "string \<Rightarrow> manager \<Rightarrow> string \<Rightarrow> bool" where
  "matches p s k = selected (active_for p) (k, dict_get (lora_registry s) k)"

definition marked_of :: "string \<Rightarrow> string \<Rightarrow> manager \<Rightarrow> string \<Rightarrow> json" where
  "marked_of reason now s k = tagged (\<lambda>k. marked_unusable reason now) (k, dict_get (lora_registry s) k)"





text \<open>
  Two chunks whose training failed, so that both are restorable; then the same state with
  the \<open>documents.json\<close> of the second chunk cut short on disk, as an interrupted write
  leaves it.
\<close>

definition doc2 :: json where
  "doc2 = JObj [(''id'', JStr ''d2''), (''text'', JStr ''y'')]"

definition two_failed :: manager where
  "two_failed =
     (case create_chunk failed_chunk [doc2] None JNull ''t4'' of
        Inl e \<Rightarrow> fresh
      | Inr (c, s) \<Rightarrow>
         (case mark_chunk_failed s ''chunk_0002'' ''boom'' ''t5'' of
            Inl e \<Rightarrow> fresh
          | Inr s' \<Rightarrow> s'))"

definition corrupt_documents :: manager where
  "corrupt_documents =
     two_failed\<lparr>document_files := (document_files two_failed)(''chunk_0002'' \<mapsto> Unparseable ''[{'')\<rparr>"



text \<open>
  The adapter-model coupling (modelled from the spec): every adapter record whose status
  is not \<open>deleted\<close> has the hash of the current model or the status \<open>unusable\<close>. An
  adapter record is a dictionary of the lora registry under a key without leading
  underscore; a record made while no model was current carries \<open>None\<close> as its hash.
\<close>

definition coupled_record :: "string option \<Rightarrow> string \<times> json \<Rightarrow> bool" where
  "coupled_record cm p =
     (case snd p of
        JObj e \<Rightarrow> startswith_underscore (fst p)
                 \<or> dict_get e ''status'' = JStr ''deleted''
                 \<or> dict_get e ''model_identity_hash'' = opt_json cm
                 \<or> dict_get e ''status'' = JStr ''unusable''
      | _ \<Rightarrow> True)"

definition adapter_model_coupling :: "manager \<Rightarrow> bool" where
  "adapter_model_coupling s = list_all (coupled_record (current_model s)) (lora_registry s)"

text \<open>
  On a fresh installation: model \<open>a\<close> is registered, an adapter is registered for it,
  and then one more operation is called. And: an adapter is registered before any model,
  then model \<open>a\<close> arrives through \<open>handle_model_switch\<close>.
\<close>

definition adapter_then :: "operation \<Rightarrow> (operation \<times> string) list" where
  "adapter_then opn =
     [(RegisterModel model_a None, ''t1''),
      (RegisterLora [] ''/tmp/ad'' JNull JNull, ''t2''),
      (opn, ''t3'')]"

definition adapter_before_model :: "(operation \<times> string) list" where
  "adapter_before_model =
     [(RegisterLora [] ''/tmp/ad'' JNull JNull, ''t1''),
      (HandleModelSwitch model_a None, ''t2'')]"

section \<open>Properties\<close>

subsection \<open>Dictionaries\<close>

lemma map_of_dict_set: "map_of (dict_set d k v) = (map_of d)(k \<mapsto> v)"
  by (simp add: dict_set_def update_conv')

lemma dict_get_set_same: "dict_get (dict_set d k v) k = v"
  by (simp add: dict_get_def map_of_dict_set)

lemma dict_get_set_other: "k' \<noteq> k \<Longrightarrow> dict_get (dict_set d k v) k' = dict_get d k'"
  by (simp add: dict_get_def map_of_dict_set)

lemma dict_get_default_set_same: "dict_get_default (dict_set d k v) k x = v"
  by (simp add: dict_get_default_def map_of_dict_set)

lemma dict_get_default_set_other:
  "k' \<noteq> k \<Longrightarrow> dict_get_default (dict_set d k v) k' x = dict_get_default d k' x"
  by (simp add: dict_get_default_def map_of_dict_set)

lemma dict_has_set: "dict_has (dict_set d k v) k' = (k' = k \<or> dict_has d k')"
  by (auto simp: dict_has_def map_of_dict_set)

lemma distinct_dict_set: "distinct (map fst d) \<Longrightarrow> distinct (map fst (dict_set d k v))"
  by (simp add: dict_set_def distinct_update)

lemma keys_dict_set_has: "dict_has d k \<Longrightarrow> map fst (dict_set d k v) = map fst d"
  by (induction d) (auto simp: dict_has_def dict_set_def)

lemma length_dict_set_has: "dict_has d k \<Longrightarrow> length (dict_set d k v) = length d"
  using keys_dict_set_has [of d k v] by (metis length_map)

subsection \<open>File checksums\<close>

lemma read_all_eq: "0 < chunk_size \<Longrightarrow> read_all chunk_size rest h = h @ rest"
proof (induction chunk_size rest h rule: read_all.induct)
  case (1 chunk_size rest h)
  show ?case
  proof (cases "take chunk_size rest = []")
    case True
    with "1.prems" have "rest = []" by simp
    with True show ?thesis by (simp add: read_all.simps)
  next
    case False
    with "1.IH" "1.prems" have "read_all chunk_size (drop chunk_size rest) (h @ take chunk_size rest)
        = (h @ take chunk_size rest) @ drop chunk_size rest" by simp
    with False show ?thesis by (subst read_all.simps) (simp add: Let_def)
  qed
qed

text \<open>
  Claim C9. With the default chunk size of 8 MiB, \<open>compute_file_checksum\<close> returns the
  digest of the whole file when the file has at most 10 GiB: the streamed reads feed the
  hash every byte of the file, in order. For a larger file it returns the literal
  \<open>partial_\<close> followed by the digest of the first 64 MiB, the 64 MiB from the middle
  of the file, the last 64 MiB, and the decimal byte size.
\<close>

theorem compute_file_checksum_regimes:
  "compute_file_checksum H file (8192 * 1024) =
     (if length file > 10 * 1024 * 1024 * 1024
      then ''partial_'' @
           H (take (64 * 1024 * 1024) file
              @ take (64 * 1024 * 1024) (drop (length file div 2) file)
              @ take (64 * 1024 * 1024) (drop (length file - 64 * 1024 * 1024) file)
              @ py_str_int (int (length file)))
      else H file)"
proof (cases "length file > 10 * 1024 * 1024 * 1024")
  case True
  have a: "nat (int (length file) div 2) = length file div 2" by (simp add: nat_div_distrib)
  have b: "nat (max 0 (int (length file) - int (64 * 1024 * 1024))) = length file - 64 * 1024 * 1024"
    using True by simp
  from True show ?thesis
    unfolding compute_file_checksum_def compute_partial_checksum_def Let_def a b
    by simp
next
  case False
  then show ?thesis
    by (simp add: compute_file_checksum_def Let_def read_all_eq)
qed

subsection \<open>Start-up and model registration\<close>

lemma init_fresh: "init ''data'' empty_disk = Inr fresh"
  by (simp add: init_def empty_disk_def load_registry_def dict_get_default_def fresh_def
      disk.extend_def manager.fields_def)

lemma register_model_changed:
  "register_model s idn fn now = Inr (r, s') \<Longrightarrow>
   dict_get r ''model_changed'' =
     py_and (opt_json (current_model s)) (JBool (current_model s \<noteq> Some (identity_hash idn)))"
  by (auto simp: register_model_def Let_def dict_get_def split: json.splits sum.splits if_splits)

text \<open>
  Claim C6. On a fresh installation (no model was ever registered, \<open>current_model\<close> is
  \<open>None\<close>) \<open>register_model\<close> succeeds with \<open>is_new\<close> true, and the
  \<open>model_changed\<close> it returns is \<open>None\<close>, the value of
  \<open>previous_model and previous_model != identity_hash\<close>; it is not the boolean
  \<open>False\<close> that the claim states.
\<close>

theorem register_model_fresh_model_changed:
  "case register_model fresh model_a None ''t1'' of
     Inl e \<Rightarrow> False
   | Inr (r, s') \<Rightarrow> dict_get r ''is_new'' = JBool True
                   \<and> dict_get r ''model_changed'' = JNull
                   \<and> dict_get r ''model_changed'' \<noteq> JBool False"
  by (simp add: register_model_def fresh_def model_a_def Let_def dict_get_def dict_get_default_def
      dict_has_def dict_set_def py_and_def identity_dict_def save_model_registry_def log_operation_def)

subsection \<open>Chunk status transitions\<close>

lemma dict_get_Some: "map_of d k = Some v \<Longrightarrow> dict_get d k = v"
  by (simp add: dict_get_def)

lemma update_chunk_status_absent:
  "\<not> dict_has (chunk_registry s) c \<Longrightarrow> update_chunk_status s c st d now = Inr s"
  by (simp add: update_chunk_status_def)

lemma update_chunk_status_present:
  assumes e: "map_of (chunk_registry s) c = Some (JObj e)"
    and h: "dict_get_default e ''history'' (JList []) = JList h"
  shows "update_chunk_status s c st d now =
           Inr (status_written s c (status_updated e st d now h) st d now)"
proof -
  have has: "dict_has (chunk_registry s) c" using e by (simp add: dict_has_def)
  have get: "dict_get (chunk_registry s) c = JObj e" using e by (simp add: dict_get_def)
  have h': "dict_get_default (dict_set e ''status'' (JStr st)) ''history'' (JList []) = JList h"
    using h by (simp add: dict_get_default_set_other)
  show ?thesis
    unfolding update_chunk_status_def
    by (simp add: has get h' Let_def save_chunk_registry_def log_operation_def
        status_updated_def status_written_def)
qed

lemma update_chunk_status_cases:
  assumes "update_chunk_status s c st d now = Inr s'"
  shows "(\<not> dict_has (chunk_registry s) c \<and> s' = s) \<or>
         (\<exists>e h. map_of (chunk_registry s) c = Some (JObj e)
               \<and> dict_get_default e ''history'' (JList []) = JList h
               \<and> s' = status_written s c (status_updated e st d now h) st d now)"
proof (cases "map_of (chunk_registry s) c")
  case None
  then have "\<not> dict_has (chunk_registry s) c" by (simp add: dict_has_def)
  with assms show ?thesis by (simp add: update_chunk_status_absent)
next
  case (Some v)
  then have has: "dict_has (chunk_registry s) c" by (simp add: dict_has_def)
  from Some have get: "dict_get (chunk_registry s) c = v" by (simp add: dict_get_def)
  from assms has get obtain e where v: "v = JObj e"
    by (cases v) (simp_all add: update_chunk_status_def)
  from assms has get v obtain h where
    h: "dict_get_default (dict_set e ''status'' (JStr st)) ''history'' (JList []) = JList h"
    by (cases "dict_get_default (dict_set e ''status'' (JStr st)) ''history'' (JList [])")
       (simp_all add: update_chunk_status_def Let_def)
  then have h': "dict_get_default e ''history'' (JList []) = JList h"
    by (simp add: dict_get_default_set_other)
  from Some v have "map_of (chunk_registry s) c = Some (JObj e)" by simp
  from update_chunk_status_present [OF this h'] assms this h' show ?thesis by auto
qed

lemma mark_chunk_trained_present:
  assumes e: "map_of (chunk_registry s) c = Some (JObj e)"
    and h: "dict_get_default e ''history'' (JList []) = JList h"
  shows "mark_chunk_trained s c l now =
           Inr (status_written (s\<lparr>chunk_registry := dict_set (chunk_registry s) c
                                    (JObj (dict_set e ''lora_id'' (JStr l)))\<rparr>) c
                  (status_updated (dict_set e ''lora_id'' (JStr l)) TRAINED
                     (''Trained into LoRA '' @ l) now h)
                  TRAINED (''Trained into LoRA '' @ l) now)"
proof -
  let ?s1 = "s\<lparr>chunk_registry := dict_set (chunk_registry s) c
                                    (JObj (dict_set e ''lora_id'' (JStr l)))\<rparr>"
  have has: "dict_has (chunk_registry s) c" using e by (simp add: dict_has_def)
  have get: "dict_get (chunk_registry s) c = JObj e" using e by (simp add: dict_get_def)
  have e1: "map_of (chunk_registry ?s1) c = Some (JObj (dict_set e ''lora_id'' (JStr l)))"
    by (simp add: map_of_dict_set)
  have h1: "dict_get_default (dict_set e ''lora_id'' (JStr l)) ''history'' (JList []) = JList h"
    using h by (simp add: dict_get_default_set_other)
  show ?thesis
    unfolding mark_chunk_trained_def
    using update_chunk_status_present [OF e1 h1] by (simp add: has get)
qed

lemma mark_chunk_trained_cases:
  assumes "mark_chunk_trained s c l now = Inr s'"
  shows "(\<not> dict_has (chunk_registry s) c \<and> s' = s) \<or>
         (\<exists>e h. map_of (chunk_registry s) c = Some (JObj e)
               \<and> dict_get_default e ''history'' (JList []) = JList h
               \<and> s' = status_written (s\<lparr>chunk_registry := dict_set (chunk_registry s) c
                                    (JObj (dict_set e ''lora_id'' (JStr l)))\<rparr>) c
                  (status_updated (dict_set e ''lora_id'' (JStr l)) TRAINED
                     (''Trained into LoRA '' @ l) now h)
                  TRAINED (''Trained into LoRA '' @ l) now)"
proof (cases "map_of (chunk_registry s) c")
  case None
  then have "\<not> dict_has (chunk_registry s) c" by (simp add: dict_has_def)
  with assms show ?thesis by (simp add: mark_chunk_trained_def update_chunk_status_absent)
next
  case (Some v)
  let ?e1 = "\<lambda>e. dict_set e ''lora_id'' (JStr l)"
  let ?s1 = "\<lambda>e. s\<lparr>chunk_registry := dict_set (chunk_registry s) c (JObj (?e1 e))\<rparr>"
  from Some have has: "dict_has (chunk_registry s) c" by (simp add: dict_has_def)
  from Some have get: "dict_get (chunk_registry s) c = v" by (simp add: dict_get_def)
  from assms has get obtain e where v: "v = JObj e"
    by (cases v) (simp_all add: mark_chunk_trained_def)
  with assms has get have u: "update_chunk_status (?s1 e) c TRAINED (''Trained into LoRA '' @ l) now = Inr s'"
    by (simp add: mark_chunk_trained_def)
  have e1: "map_of (chunk_registry (?s1 e)) c = Some (JObj (?e1 e))"
    by (simp add: map_of_dict_set)
  from update_chunk_status_cases [OF u] e1 obtain h where
    h: "dict_get_default (?e1 e) ''history'' (JList []) = JList h"
    and s': "s' = status_written (?s1 e) c (status_updated (?e1 e) TRAINED (''Trained into LoRA '' @ l) now h)
                  TRAINED (''Trained into LoRA '' @ l) now"
    by (auto simp: dict_has_def)
  from h have "dict_get_default e ''history'' (JList []) = JList h"
    by (simp add: dict_get_default_set_other)
  with Some v s' show ?thesis by auto
qed

lemma status_updated_status: "dict_get (status_updated e st d now h) ''status'' = JStr st"
  by (simp add: status_updated_def dict_get_set_other dict_get_set_same)

lemma status_updated_history:
  "dict_get (status_updated e st d now h) ''history'' = JList (h @ [history_entry now st d])"
  by (simp add: status_updated_def dict_get_set_same)

lemma status_updated_other:
  "f \<noteq> ''status'' \<Longrightarrow> f \<noteq> ''history'' \<Longrightarrow> map_of (status_updated e st d now h) f = map_of e f"
  by (simp add: status_updated_def map_of_dict_set)

lemma status_written_entry:
  "c \<noteq> ''_counter'' \<Longrightarrow> map_of (chunk_registry (status_written s c e' st d now)) c = Some (JObj e')"
  by (simp add: status_written_def Let_def map_of_dict_set)

lemma status_written_other:
  "k \<noteq> c \<Longrightarrow> k \<noteq> ''_counter'' \<Longrightarrow>
   map_of (chunk_registry (status_written s c e' st d now)) k = map_of (chunk_registry s) k"
  by (simp add: status_written_def Let_def map_of_dict_set)

lemma status_written_counter_key:
  "map_of (chunk_registry (status_written s c e' st d now)) ''_counter'' = Some (JInt (chunk_counter s))"
  by (simp add: status_written_def Let_def map_of_dict_set)

lemma status_written_fields:
  "chunk_counter (status_written s c e' st d now) = chunk_counter s"
  "chunk_registry_file (status_written s c e' st d now) =
     Some (Parsed (JObj (chunk_registry (status_written s c e' st d now))))"
  "document_files (status_written s c e' st d now) = document_files s"
  "lora_registry (status_written s c e' st d now) = lora_registry s"
  "model_registry (status_written s c e' st d now) = model_registry s"
  "current_model (status_written s c e' st d now) = current_model s"
  "lora_counter (status_written s c e' st d now) = lora_counter s"
  "length (operations_log (status_written s c e' st d now)) = Suc (length (operations_log s))"
  by (simp_all add: status_written_def Let_def)

lemma status_written_manifest:
  "c \<noteq> ''_counter'' \<Longrightarrow> manifest_files s c \<noteq> None \<Longrightarrow>
   manifest_files (status_written s c e' st d now) c = Some (JObj e')"
  by (simp add: status_written_def Let_def dict_get_def map_of_dict_set)

text \<open>
  Claim C5, as the code has it. \<open>_update_chunk_status\<close> does not look at the current
  status: for every chunk present in the registry (a dictionary whose history is a list,
  under a key other than the bookkeeping key \<open>_counter\<close>) and every requested status,
  permitted by the lifecycle or not, the operation succeeds, sets the status to the
  requested one, appends one history record, rewrites the registry document and, when it
  exists, the manifest, and appends one line to the operation log.
\<close>

theorem chunk_transition_unvalidated:
  assumes e: "map_of (chunk_registry s) c = Some (JObj e)"
    and h: "dict_get_default e ''history'' (JList []) = JList h"
    and c: "c \<noteq> ''_counter''"
  shows "\<exists>s'. update_chunk_status s c new_status details now = Inr s'
      \<and> get_chunk s' c = JObj (status_updated e new_status details now h)
      \<and> dict_get (status_updated e new_status details now h) ''status'' = JStr new_status
      \<and> dict_get (status_updated e new_status details now h) ''history''
          = JList (h @ [history_entry now new_status details])
      \<and> chunk_registry_file s' = Some (Parsed (JObj (chunk_registry s')))
      \<and> (manifest_files s c \<noteq> None \<longrightarrow> manifest_files s' c = Some (get_chunk s' c))
      \<and> length (operations_log s') = Suc (length (operations_log s))"
  using update_chunk_status_present [OF e h, of new_status details now] c
  by (simp add: get_chunk_def dict_get_Some status_written_entry status_updated_status
      status_updated_history status_written_fields status_written_manifest)

lemma archived_chunk_entry:
  "map_of (chunk_registry archived_chunk) ''chunk_0001'' = Some (JObj archived_entry)"
  by code_simp

lemma archived_entry_history:
  "dict_get_default archived_entry ''history'' (JList []) =
     JList [history_entry ''t2'' ''created'' ''1 documents'',
            history_entry ''t3'' ''archived'' ''Archived'']"
  by code_simp

theorem chunk_transition_unvalidated_witness:
  "\<exists>s'. update_chunk_status archived_chunk ''chunk_0001'' TRAINING ''Training started'' ''t4'' = Inr s'
      \<and> get_chunk s' ''chunk_0001''
          = JObj (status_updated archived_entry TRAINING ''Training started'' ''t4''
                   [history_entry ''t2'' ''created'' ''1 documents'',
                    history_entry ''t3'' ''archived'' ''Archived''])
      \<and> chunk_registry_file s' = Some (Parsed (JObj (chunk_registry s')))"
proof -
  have c: "''chunk_0001'' \<noteq> ''_counter''" by simp
  from chunk_transition_unvalidated [OF archived_chunk_entry archived_entry_history c,
      of TRAINING "''Training started''" "''t4''"]
  show ?thesis by auto
qed

text \<open>
  Claim C5 as stated fails: the chunk \<open>chunk_0001\<close> is ARCHIVED, TRAINING is not a
  permitted target from ARCHIVED, and \<open>mark_chunk_training\<close> returns without an error,
  with the status, the registry entry and the manifest changed.
\<close>

theorem archived_chunk_transition_counterexample:
  "get_or_empty ''status'' (get_chunk archived_chunk ''chunk_0001'') = JStr ARCHIVED
   \<and> \<not> spec_permitted ARCHIVED TRAINING
   \<and> (case mark_chunk_training archived_chunk ''chunk_0001'' ''t4'' of
        Inl e \<Rightarrow> False
      | Inr s' \<Rightarrow> get_or_empty ''status'' (get_chunk s' ''chunk_0001'') = JStr TRAINING
                 \<and> get_chunk s' ''chunk_0001'' \<noteq> get_chunk archived_chunk ''chunk_0001''
                 \<and> manifest_files s' ''chunk_0001'' \<noteq> manifest_files archived_chunk ''chunk_0001'')"
  by code_simp

subsection \<open>Frame of the status-marking operations\<close>

lemma mark_frame_refl: "mark_frame s c s"
  by (simp add: mark_frame_def)

lemma mark_frame_written:
  assumes "dict_has (chunk_registry s) c"
    and "\<forall>k. k \<noteq> c \<longrightarrow> map_of (chunk_registry s0) k = map_of (chunk_registry s) k"
    and "chunk_counter s0 = chunk_counter s"
  shows "mark_frame s c (status_written s0 c e' st d now)"
  unfolding mark_frame_def using assms
  by (auto simp: status_written_def Let_def map_of_dict_set)

lemma update_chunk_status_frame:
  assumes "update_chunk_status s c st d now = Inr s'"
  shows "mark_frame s c s'"
  using update_chunk_status_cases [OF assms]
  by (auto simp: mark_frame_refl dict_has_def intro!: mark_frame_written)

lemma mark_chunk_trained_frame:
  assumes "mark_chunk_trained s c l now = Inr s'"
  shows "mark_frame s c s'"
  using mark_chunk_trained_cases [OF assms]
  by (auto simp: mark_frame_refl dict_has_def map_of_dict_set intro!: mark_frame_written)

lemma mark_chunk_trained_fields:
  assumes m: "mark_chunk_trained s c l now = Inr s'"
    and c: "c \<noteq> ''_counter''"
    and e: "map_of (chunk_registry s) c = Some (JObj e)"
  shows "\<exists>e'. map_of (chunk_registry s') c = Some (JObj e')
             \<and> dict_get e' ''lora_id'' = JStr l
             \<and> (\<forall>f. f \<notin> {''status'', ''history'', ''lora_id''} \<longrightarrow> map_of e' f = map_of e f)"
proof -
  from mark_chunk_trained_cases [OF m] e obtain h where
    s': "s' = status_written (s\<lparr>chunk_registry := dict_set (chunk_registry s) c
                                    (JObj (dict_set e ''lora_id'' (JStr l)))\<rparr>) c
                  (status_updated (dict_set e ''lora_id'' (JStr l)) TRAINED
                     (''Trained into LoRA '' @ l) now h)
                  TRAINED (''Trained into LoRA '' @ l) now"
    by (auto simp: dict_has_def)
  let ?e' = "status_updated (dict_set e ''lora_id'' (JStr l)) TRAINED (''Trained into LoRA '' @ l) now h"
  have 1: "map_of (chunk_registry s') c = Some (JObj ?e')"
    unfolding s' using c by (rule status_written_entry)
  have 2: "dict_get ?e' ''lora_id'' = JStr l"
    by (simp add: dict_get_def status_updated_other map_of_dict_set)
  have 3: "\<forall>f. f \<notin> {''status'', ''history'', ''lora_id''} \<longrightarrow> map_of ?e' f = map_of e f"
    by (simp add: status_updated_other map_of_dict_set)
  from 1 2 3 show ?thesis by blast
qed

text \<open>
  Claim C10. Let one of \<open>mark_chunk_training\<close>, \<open>mark_chunk_trained\<close>,
  \<open>mark_chunk_failed\<close>, \<open>mark_chunk_restored\<close> return normally on chunk id
  \<open>c\<close>. Every registry key other than \<open>c\<close> and the bookkeeping key
  \<open>_counter\<close> keeps its value; \<open>_counter\<close> keeps its value too when it held the
  counter (as it does after every save); the chunk counter is unchanged; when \<open>c\<close> is
  not in the registry the whole state (registry, manifests, operation log) is unchanged;
  and \<open>mark_chunk_trained\<close> leaves every field of \<open>c\<close>'s entry other than
  \<open>status\<close>, \<open>history\<close> and \<open>lora_id\<close> as it was, with \<open>lora_id\<close> set.
\<close>

theorem mark_chunk_frame:
  assumes r: "r = mark_chunk_training s c now \<or> r = mark_chunk_trained s c l now
            \<or> r = mark_chunk_failed s c err now \<or> r = mark_chunk_restored s c now"
    and ok: "r = Inr s'"
  shows "(\<forall>k. k \<noteq> c \<longrightarrow> k \<noteq> ''_counter'' \<longrightarrow>
            map_of (chunk_registry s') k = map_of (chunk_registry s) k)
       \<and> (map_of (chunk_registry s) ''_counter'' = Some (JInt (chunk_counter s)) \<longrightarrow>
            (\<forall>k. k \<noteq> c \<longrightarrow> map_of (chunk_registry s') k = map_of (chunk_registry s) k))
       \<and> chunk_counter s' = chunk_counter s
       \<and> (\<not> dict_has (chunk_registry s) c \<longrightarrow> s' = s)
       \<and> (r = mark_chunk_trained s c l now \<longrightarrow> c \<noteq> ''_counter'' \<longrightarrow>
            (\<forall>e. map_of (chunk_registry s) c = Some (JObj e) \<longrightarrow>
               (\<exists>e'. map_of (chunk_registry s') c = Some (JObj e')
                    \<and> dict_get e' ''lora_id'' = JStr l
                    \<and> (\<forall>f. f \<notin> {''status'', ''history'', ''lora_id''} \<longrightarrow>
                          map_of e' f = map_of e f))))"
proof -
  from r ok have "(\<exists>st d. update_chunk_status s c st d now = Inr s')
                 \<or> mark_chunk_trained s c l now = Inr s'"
    unfolding mark_chunk_training_def mark_chunk_failed_def mark_chunk_restored_def by metis
  then have "mark_frame s c s'"
    by (auto dest: update_chunk_status_frame mark_chunk_trained_frame)
  moreover have "r = mark_chunk_trained s c l now \<longrightarrow> c \<noteq> ''_counter'' \<longrightarrow>
            (\<forall>e. map_of (chunk_registry s) c = Some (JObj e) \<longrightarrow>
               (\<exists>e'. map_of (chunk_registry s') c = Some (JObj e')
                    \<and> dict_get e' ''lora_id'' = JStr l
                    \<and> (\<forall>f. f \<notin> {''status'', ''history'', ''lora_id''} \<longrightarrow>
                          map_of e' f = map_of e f)))"
    using ok mark_chunk_trained_fields [of s c l now s'] by auto
  ultimately show ?thesis unfolding mark_frame_def by blast
qed

theorem mark_chunk_frame_witness:
  "(case mark_chunk_trained one_chunk ''chunk_0001'' ''lora_0001'' ''t3'' of
      Inl e \<Rightarrow> False
    | Inr s' \<Rightarrow> chunk_counter s' = chunk_counter one_chunk
        \<and> map_of (chunk_registry s') ''_counter'' = map_of (chunk_registry one_chunk) ''_counter'')
   \<and> mark_chunk_restored one_chunk ''chunk_0002'' ''t3'' = Inr one_chunk"
proof -
  have "case mark_chunk_trained one_chunk ''chunk_0001'' ''lora_0001'' ''t3'' of
          Inl e \<Rightarrow> False | Inr s' \<Rightarrow> True"
    by code_simp
  then obtain s1 where m1: "mark_chunk_trained one_chunk ''chunk_0001'' ''lora_0001'' ''t3'' = Inr s1"
    by (auto split: sum.splits)
  have "case mark_chunk_restored one_chunk ''chunk_0002'' ''t3'' of
          Inl e \<Rightarrow> False | Inr s' \<Rightarrow> True"
    by code_simp
  then obtain s2 where m2: "mark_chunk_restored one_chunk ''chunk_0002'' ''t3'' = Inr s2"
    by (auto split: sum.splits)
  have sync: "map_of (chunk_registry one_chunk) ''_counter'' = Some (JInt (chunk_counter one_chunk))"
    by code_simp
  have absent: "\<not> dict_has (chunk_registry one_chunk) ''chunk_0002''"
    by code_simp
  have ne: "''_counter'' \<noteq> ''chunk_0001''" by simp
  note f1 = mark_chunk_frame [OF disjI2 [OF disjI1 [OF refl]] m1]
  note c1 = f1 [THEN conjunct2, THEN conjunct2, THEN conjunct1]
  note k1 = f1 [THEN conjunct2, THEN conjunct1, THEN mp, OF sync, THEN spec, THEN mp, OF ne]
  note f2 = mark_chunk_frame [OF disjI2 [OF disjI2 [OF disjI2 [OF refl]]] m2]
  note e2 = f2 [THEN conjunct2, THEN conjunct2, THEN conjunct2, THEN conjunct1, THEN mp, OF absent]
  from c1 k1 show ?thesis unfolding m1 m2 e2 by simp
qed

subsection \<open>Registry scans and restorable chunks\<close>

lemma scan_registry_snd:
  "snd (scan_registry sel tag reg) = map (tagged tag) (filter (selected sel) reg)"
  by (induction reg) (auto simp: selected_def tagged_def split: prod.splits json.splits)

lemma scan_registry_fst:
  "fst (scan_registry sel tag reg) =
     map (\<lambda>p. if selected sel p then (fst p, tagged tag p) else p) reg"
  by (induction reg) (auto simp: selected_def tagged_def split: prod.splits json.splits)

lemma scan_registry_keys: "map fst (fst (scan_registry sel tag reg)) = map fst reg"
  by (simp add: scan_registry_fst comp_def)

lemma restorable_tag_chunk_id: "dict_get_default (restorable_tag k e) ''chunk_id'' x = JStr k"
  by (simp add: restorable_tag_def dict_get_default_set_other dict_get_default_set_same)

lemma can_restore_iff:
  "can_restore st cm target \<longleftrightarrow>
     st = JStr FAILED \<or> st = JStr RESTORED \<or> (st = JStr TRAINED \<and> cm \<noteq> opt_json target)"
  by (auto simp: can_restore_def)

lemma tagged_restorable_chunk_id:
  "selected sel p \<Longrightarrow> get_or_empty ''chunk_id'' (tagged restorable_tag p) = JStr (fst p)"
  by (cases p) (auto simp: selected_def tagged_def restorable_tag_chunk_id split: json.splits)

lemma restorable_ids:
  "map (get_or_empty ''chunk_id'') (fst (get_restorable_chunks s mih)) =
     map (\<lambda>p. JStr (fst p))
       (filter (selected (restorable_sel (document_files s) (opt_or mih (current_model s))))
          (chunk_registry s))"
  using tagged_restorable_chunk_id [where p = "(a, b)" for a b, simplified]
  by (auto simp: get_restorable_chunks_def Let_def split_beta scan_registry_snd)

text \<open>
  Claim C2. For every chunk entry of the registry (a key without leading underscore whose
  value is a dictionary) \<open>get_restorable_chunks\<close> includes the chunk if and only if
  its \<open>documents.json\<close> exists and its status is FAILED, or RESTORED, or TRAINED with
  a \<open>model_identity_hash\<close> different from the target. The target is the supplied
  hash, and \<open>current_model\<close> when none is supplied (the code takes the empty string
  for none as well). The registry is a dictionary: its keys are distinct.
\<close>

theorem restorable_iff:
  assumes d: "distinct (map fst (chunk_registry s))"
    and m: "(k, JObj e) \<in> set (chunk_registry s)"
    and u: "\<not> startswith_underscore k"
    and t: "target = opt_or model_identity_hash (current_model s)"
  shows "(JStr k \<in> set (map (get_or_empty ''chunk_id'')
                         (fst (get_restorable_chunks s model_identity_hash)))
          \<longleftrightarrow> document_files s k \<noteq> None
               \<and> (dict_get e ''status'' = JStr FAILED
                    \<or> dict_get e ''status'' = JStr RESTORED
                    \<or> (dict_get e ''status'' = JStr TRAINED
                        \<and> dict_get e ''model_identity_hash'' \<noteq> opt_json target)))
       \<and> (model_identity_hash = None \<longrightarrow> target = current_model s)
       \<and> (\<forall>h. model_identity_hash = Some h \<and> h \<noteq> [] \<longrightarrow> target = Some h)"
proof -
  let ?sel = "restorable_sel (document_files s) target"
  have "JStr k \<in> set (map (get_or_empty ''chunk_id'')
                         (fst (get_restorable_chunks s model_identity_hash)))
        \<longleftrightarrow> (\<exists>v. (k, v) \<in> set (chunk_registry s) \<and> selected ?sel (k, v))"
    unfolding restorable_ids t by (auto simp: image_iff)
  also have "\<dots> \<longleftrightarrow> selected ?sel (k, JObj e)"
    using d m by (auto dest: eq_key_imp_eq_value)
  also have "\<dots> \<longleftrightarrow> document_files s k \<noteq> None
               \<and> (dict_get e ''status'' = JStr FAILED
                    \<or> dict_get e ''status'' = JStr RESTORED
                    \<or> (dict_get e ''status'' = JStr TRAINED
                        \<and> dict_get e ''model_identity_hash'' \<noteq> opt_json target))"
    using u by (auto simp: selected_def restorable_sel_def can_restore_iff)
  finally show ?thesis using t by auto
qed

lemma failed_chunk_entry:
  "(''chunk_0001'', JObj failed_entry) \<in> set (chunk_registry failed_chunk)"
  by code_simp

lemma failed_chunk_distinct: "distinct (map fst (chunk_registry failed_chunk))"
  by code_simp

theorem restorable_iff_witness:
  "JStr ''chunk_0001'' \<in> set (map (get_or_empty ''chunk_id'')
                                 (fst (get_restorable_chunks failed_chunk None)))"
proof -
  have u: "\<not> startswith_underscore ''chunk_0001''" by simp
  have docs: "document_files failed_chunk ''chunk_0001'' \<noteq> None" by code_simp
  have st: "dict_get failed_entry ''status'' = JStr FAILED" by code_simp
  note r = restorable_iff [OF failed_chunk_distinct failed_chunk_entry u refl, of None,
      THEN conjunct1, THEN iffD2]
  show ?thesis by (rule r) (simp add: docs st)
qed

subsection \<open>Restoration\<close>

lemma is_list_conv: "is_list v \<longleftrightarrow> (\<exists>h. v = JList h)"
  by (cases v) auto

lemma status_written_has: "dict_has (chunk_registry s) k \<Longrightarrow>
   dict_has (chunk_registry (status_written s c e' st d now)) k"
  by (simp add: status_written_def Let_def dict_has_set)

lemma mark_restored_ok:
  assumes ok: "markable s c"
  shows "\<exists>s'. mark_chunk_restored s c now = Inr s'
          \<and> document_files s' = document_files s
          \<and> (dict_has (chunk_registry s) c \<longrightarrow> has_status s' c RESTORED)
          \<and> (\<forall>k. markable s k \<longrightarrow> markable s' k)
          \<and> (\<forall>k. dict_has (chunk_registry s) k \<longrightarrow> dict_has (chunk_registry s') k)
          \<and> (\<forall>k. k \<noteq> ''_counter'' \<longrightarrow> has_status s k RESTORED \<longrightarrow> has_status s' k RESTORED)"
proof (cases "map_of (chunk_registry s) c")
  case None
  then have "\<not> dict_has (chunk_registry s) c" by (simp add: dict_has_def)
  then show ?thesis
    by (simp add: mark_chunk_restored_def update_chunk_status_absent)
next
  case (Some v)
  with ok obtain e h where e: "map_of (chunk_registry s) c = Some (JObj e)"
    and h: "dict_get_default e ''history'' (JList []) = JList h" and c: "c \<noteq> ''_counter''"
    by (cases v) (auto simp: markable_def is_list_conv)
  let ?e' = "status_updated e RESTORED ''Data restored to RAG'' now h"
  let ?s' = "status_written s c ?e' RESTORED ''Data restored to RAG'' now"
  have m: "mark_chunk_restored s c now = Inr ?s'"
    unfolding mark_chunk_restored_def by (rule update_chunk_status_present [OF e h])
  have ent: "map_of (chunk_registry ?s') c = Some (JObj ?e')"
    using c by (rule status_written_entry)
  have oth: "\<And>k. k \<noteq> c \<Longrightarrow> k \<noteq> ''_counter'' \<Longrightarrow>
               map_of (chunk_registry ?s') k = map_of (chunk_registry s) k"
    by (rule status_written_other)
  have 1: "has_status ?s' c RESTORED"
    by (simp add: has_status_def ent status_updated_status)
  have hist: "dict_get_default ?e' ''history'' (JList []) = JList (h @ [history_entry now RESTORED ''Data restored to RAG''])"
    by (simp add: status_updated_def dict_get_default_set_same)
  have 2: "markable ?s' k" if "markable s k" for k
  proof (cases "k = c")
    case True
    then show ?thesis using c by (simp add: markable_def ent hist)
  next
    case False
    with that show ?thesis by (auto simp: markable_def oth)
  qed
  have 3: "has_status ?s' k RESTORED" if "k \<noteq> ''_counter''" "has_status s k RESTORED" for k
  proof (cases "k = c")
    case True
    then show ?thesis using 1 by simp
  next
    case False
    with that show ?thesis by (simp add: has_status_def oth)
  qed
  from m 1 2 3 show ?thesis
    by (auto simp: status_written_fields status_written_has)
qed

lemma readable_documents_get:
  assumes "readable_documents s c"
  shows "(documents_or_empty s c = [] \<longrightarrow>
            (\<exists>j. get_chunk_documents s c = Inr j \<and> \<not> truthy j))
       \<and> (documents_or_empty s c \<noteq> [] \<longrightarrow>
            get_chunk_documents s c = Inr (JList (documents_or_empty s c)))"
proof (cases "document_files s c")
  case None
  then show ?thesis by (simp add: documents_or_empty_def get_chunk_documents_def)
next
  case (Some f)
  with assms obtain docs where "f = Parsed (JList docs)"
    by (cases f; cases "case f of Parsed j \<Rightarrow> j | _ \<Rightarrow> JNull")
       (auto simp: readable_documents_def)
  with Some show ?thesis by (simp add: documents_or_empty_def get_chunk_documents_def)
qed

text \<open>
  The loop on readable documents: it returns, with the documents concatenated in input
  order and every id with a non-empty list marked RESTORED.
\<close>

lemma restore_loop_readable:
  assumes "\<forall>c\<in>set S. markable s c \<and> readable_documents s c"
  shows "\<exists>s'. restore_loop now S s docs rs fs =
            Inr (s', docs @ concat (map (documents_or_empty s) S),
                 rs @ filter (\<lambda>c. documents_or_empty s c \<noteq> []) S,
                 fs @ filter (\<lambda>c. documents_or_empty s c = []) S)
          \<and> document_files s' = document_files s
          \<and> (\<forall>k. k \<noteq> ''_counter'' \<longrightarrow> has_status s k RESTORED \<longrightarrow> has_status s' k RESTORED)
          \<and> (\<forall>c\<in>set S. documents_or_empty s c \<noteq> [] \<longrightarrow> dict_has (chunk_registry s) c
                \<longrightarrow> has_status s' c RESTORED)"
  using assms
proof (induction S arbitrary: s docs rs fs)
  case Nil
  then show ?case by simp
next
  case (Cons c S)
  from Cons.prems have rd: "readable_documents s c" and mc: "markable s c" by simp_all
  note g = readable_documents_get [OF rd]
  show ?case
  proof (cases "documents_or_empty s c = []")
    case True
    with g obtain j where "get_chunk_documents s c = Inr j" "\<not> truthy j" by blast
    then have step: "restore_loop now (c # S) s docs rs fs = restore_loop now S s docs rs (fs @ [c])"
      by simp
    from Cons.prems have "\<forall>c\<in>set S. markable s c \<and> readable_documents s c" by simp
    from Cons.IH [OF this, of docs rs "fs @ [c]"] True show ?thesis
      unfolding step by auto
  next
    case False
    define d where "d = documents_or_empty s c"
    from False g have d: "get_chunk_documents s c = Inr (JList d)" "d \<noteq> []"
      by (simp_all add: d_def)
    from mark_restored_ok [OF mc, of now] obtain s1 where
      m: "mark_chunk_restored s c now = Inr s1"
      and df: "document_files s1 = document_files s"
      and st: "dict_has (chunk_registry s) c \<longrightarrow> has_status s1 c RESTORED"
      and mk: "\<forall>k. markable s k \<longrightarrow> markable s1 k"
      and dh: "\<forall>k. dict_has (chunk_registry s) k \<longrightarrow> dict_has (chunk_registry s1) k"
      and keep: "\<forall>k. k \<noteq> ''_counter'' \<longrightarrow> has_status s k RESTORED \<longrightarrow> has_status s1 k RESTORED"
      by blast
    have step: "restore_loop now (c # S) s docs rs fs = restore_loop now S s1 (docs @ d) (rs @ [c]) fs"
      using d m by simp
    have same: "documents_or_empty s1 = documents_or_empty s"
      by (rule ext) (simp add: documents_or_empty_def df)
    have same_r: "readable_documents s1 = readable_documents s"
      by (rule ext) (simp add: readable_documents_def df)
    from Cons.prems mk have "\<forall>c\<in>set S. markable s1 c \<and> readable_documents s1 c"
      by (simp add: same_r)
    from Cons.IH [OF this, of "docs @ d" "rs @ [c]" fs] obtain s' where
      l: "restore_loop now S s1 (docs @ d) (rs @ [c]) fs =
            Inr (s', (docs @ d) @ concat (map (documents_or_empty s) S),
                 (rs @ [c]) @ filter (\<lambda>c. documents_or_empty s c \<noteq> []) S,
                 fs @ filter (\<lambda>c. documents_or_empty s c = []) S)"
      and df': "document_files s' = document_files s1"
      and keep': "\<forall>k. k \<noteq> ''_counter'' \<longrightarrow> has_status s1 k RESTORED \<longrightarrow> has_status s' k RESTORED"
      and st': "\<forall>c\<in>set S. documents_or_empty s c \<noteq> [] \<longrightarrow> dict_has (chunk_registry s1) c
                \<longrightarrow> has_status s' c RESTORED"
      unfolding same by blast
    have c: "c \<noteq> ''_counter''" using mc by (simp add: markable_def)
    have "dict_has (chunk_registry s) c \<longrightarrow> has_status s' c RESTORED"
      using st keep' c by blast
    moreover have "\<forall>k\<in>set S. documents_or_empty s k \<noteq> [] \<longrightarrow> dict_has (chunk_registry s) k
                \<longrightarrow> has_status s' k RESTORED"
      using st' dh by blast
    moreover have "\<forall>k. k \<noteq> ''_counter'' \<longrightarrow> has_status s k RESTORED \<longrightarrow> has_status s' k RESTORED"
      using keep keep' by blast
    ultimately show ?thesis
      unfolding step using l df df' d False by (simp add: d_def)
  qed
qed

text \<open>
  What holds of \<open>restore_chunks_to_rag\<close> when every documents file of the list is
  missing or holds a list: a normal return, the documents concatenated in input order,
  the restored ids RESTORED afterwards, a missing file under \<open>failed_chunks\<close>.
\<close>

lemma restore_chunks_to_rag_readable:
  assumes ok: "\<forall>c\<in>set S. markable s c \<and> readable_documents s c"
  shows "\<exists>res s'. restore_chunks_to_rag s (Some S) now = Inr (res, s')
     \<and> documents res = concat (map (documents_or_empty s) S)
     \<and> restored_chunks res = filter (\<lambda>c. documents_or_empty s c \<noteq> []) S
     \<and> failed_chunks res = filter (\<lambda>c. documents_or_empty s c = []) S
     \<and> (\<forall>c\<in>set (restored_chunks res). dict_has (chunk_registry s) c \<longrightarrow> has_status s' c RESTORED)
     \<and> (\<forall>c\<in>set S. document_files s c = None \<longrightarrow> c \<in> set (failed_chunks res))
     \<and> document_files s' = document_files s"
proof -
  from restore_loop_readable [OF ok, of now "[]" "[]" "[]"] obtain s1 where
    l: "restore_loop now S s [] [] [] =
          Inr (s1, concat (map (documents_or_empty s) S),
               filter (\<lambda>c. documents_or_empty s c \<noteq> []) S,
               filter (\<lambda>c. documents_or_empty s c = []) S)"
    and df: "document_files s1 = document_files s"
    and st: "\<forall>c\<in>set S. documents_or_empty s c \<noteq> [] \<longrightarrow> dict_has (chunk_registry s) c
                \<longrightarrow> has_status s1 c RESTORED"
    by auto
  have none: "\<forall>c\<in>set S. document_files s c = None \<longrightarrow> documents_or_empty s c = []"
    by (simp add: documents_or_empty_def)
  show ?thesis
    unfolding restore_chunks_to_rag_def
    using l df st none
    by (simp add: log_operation_def has_status_def)
qed

text \<open>A documents file that does not parse ends the loop with the exception.\<close>

lemma restore_loop_unparseable:
  "document_files s c = Some (Unparseable raw) \<Longrightarrow>
   restore_loop now (c # rest) s docs rs fs = Inl JSONDecodeError"
  by (simp add: get_chunk_documents_def)

text \<open>
  Claim C3 at the failing input. Both chunks are restorable (both are FAILED and both
  \<open>documents.json\<close> exist), and the second file does not parse. Restoring the two,
  in either order or by default, raises out of \<open>restore_chunks_to_rag\<close>: no result
  is returned, the unreadable chunk is not recorded under \<open>failed_chunks\<close>, and the
  restoration of the other chunk is aborted with it. With the second file missing
  instead, the same call returns, with the second id under \<open>failed_chunks\<close>.
\<close>

theorem restore_aborts_on_unparseable_documents:
  "map (get_or_empty ''chunk_id'') (fst (get_restorable_chunks corrupt_documents None))
     = [JStr ''chunk_0001'', JStr ''chunk_0002'']
   \<and> (case restore_chunks_to_rag corrupt_documents (Some [''chunk_0002'', ''chunk_0001'']) ''t6'' of
        Inl e \<Rightarrow> e = JSONDecodeError | Inr r \<Rightarrow> False)
   \<and> (case restore_chunks_to_rag corrupt_documents (Some [''chunk_0001'', ''chunk_0002'']) ''t6'' of
        Inl e \<Rightarrow> e = JSONDecodeError | Inr r \<Rightarrow> False)
   \<and> (case restore_chunks_to_rag corrupt_documents None ''t6'' of
        Inl e \<Rightarrow> e = JSONDecodeError | Inr r \<Rightarrow> False)
   \<and> (case restore_chunks_to_rag
              (two_failed\<lparr>document_files := (document_files two_failed)(''chunk_0002'' := None)\<rparr>)
              (Some [''chunk_0002'', ''chunk_0001'']) ''t6'' of
        Inl e \<Rightarrow> False
      | Inr (res, s') \<Rightarrow> restored_chunks res = [''chunk_0001'']
                       \<and> failed_chunks res = [''chunk_0002'']
                       \<and> documents res = [doc1])"
  by code_simp

subsection \<open>Start-up on a corrupt registry\<close>

lemma init_unparseable_chunk_registry:
  assumes "init dir d = Inr s" and "chunk_registry_file d = Some (Unparseable raw)"
  shows "chunk_registry s = [] \<and> chunk_counter s = 0
       \<and> chunk_registry_file s = Some (Unparseable raw)"
  using assms
  by (auto simp: init_def load_registry_def dict_get_default_def disk.extend_def
      manager.fields_def split: json.splits option.splits file_content.splits)

lemma get_chunks_by_status_empty:
  "chunk_registry s = [] \<Longrightarrow> get_chunks_by_status s status model_hash = Inr ([], s)"
  by (simp add: get_chunks_by_status_def sorted_created_at_desc_def)

lemma create_chunk_writes_registry_file:
  "create_chunk s docs character metadata now = Inr (c, s') \<Longrightarrow>
   chunk_registry_file s' = Some (Parsed (JObj (chunk_registry s')))"
  by (auto simp: create_chunk_def Let_def save_chunk_registry_def log_operation_def
      split: sum.splits)

text \<open>
  Claim C7, as the code has it. When start-up finds a chunk registry file that does not
  parse, the registry in memory is empty, \<open>get_chunks_by_status\<close> (list chunks)
  returns the empty list, and the file on disk is as it was. Nothing gates later writes:
  the first \<open>create_chunk\<close> saves the registry, and the file then holds the registry
  in memory instead of the unparseable text.
\<close>

theorem corrupt_registry_startup:
  assumes i: "init dir d = Inr s" and f: "chunk_registry_file d = Some (Unparseable raw)"
  shows "chunk_registry s = []
       \<and> chunk_registry_file s = Some (Unparseable raw)
       \<and> get_chunks_by_status s None None = Inr ([], s)
       \<and> (\<forall>docs character metadata now c s'.
            create_chunk s docs character metadata now = Inr (c, s') \<longrightarrow>
              chunk_registry_file s' = Some (Parsed (JObj (chunk_registry s')))
              \<and> chunk_registry_file s' \<noteq> Some (Unparseable raw))"
proof -
  note a = init_unparseable_chunk_registry [OF i f]
  from a have e: "chunk_registry s = []" by simp
  show ?thesis
    using a get_chunks_by_status_empty [OF e] create_chunk_writes_registry_file
    by auto
qed

lemma init_corrupt_ok:
  "case init ''data'' corrupt_disk of Inl e \<Rightarrow> False | Inr s \<Rightarrow> True"
  by code_simp

theorem corrupt_registry_startup_witness:
  "\<exists>s. init ''data'' corrupt_disk = Inr s
      \<and> chunk_registry s = []
      \<and> chunk_registry_file s = Some (Unparseable ''{'')
      \<and> get_chunks_by_status s None None = Inr ([], s)"
proof -
  from init_corrupt_ok obtain s where i: "init ''data'' corrupt_disk = Inr s"
    by (auto split: sum.splits)
  have f: "chunk_registry_file corrupt_disk = Some (Unparseable ''{'')"
    by (simp add: corrupt_disk_def)
  from corrupt_registry_startup [OF i f] i show ?thesis by blast
qed

text \<open>
  Claim C7 as stated fails: after a start-up on the corrupt registry, one
  \<open>create_chunk\<close> overwrites the corrupt file.
\<close>

theorem corrupt_registry_overwritten_counterexample:
  "case init ''data'' corrupt_disk of
     Inl e \<Rightarrow> False
   | Inr s \<Rightarrow>
       chunk_registry_file s = Some (Unparseable ''{'')
       \<and> (case create_chunk s [doc1] None JNull ''t1'' of
            Inl e \<Rightarrow> False
          | Inr (c, s') \<Rightarrow> chunk_registry_file s' \<noteq> Some (Unparseable ''{'')
                         \<and> chunk_registry_file s' = Some (Parsed (JObj (chunk_registry s'))))"
  by code_simp

subsection \<open>Model switch\<close>

lemma dict_get_JObj_has: "dict_get d k = JObj e \<Longrightarrow> map_of d k = Some (JObj e)"
  by (auto simp: dict_get_def split: option.splits)

lemma mark_lora_unusable_present:
  assumes "map_of (lora_registry s) k = Some (JObj e)"
  shows "mark_lora_unusable s k reason now =
     Inr (s\<lparr>lora_registry :=
               dict_set (dict_set (lora_registry s) k (JObj (marked_unusable reason now e)))
                 ''_counter'' (JInt (lora_counter s)),
            lora_registry_file := Some (Parsed (JObj
               (dict_set (dict_set (lora_registry s) k (JObj (marked_unusable reason now e)))
                 ''_counter'' (JInt (lora_counter s))))),
            operations_log := operations_log s @
               [JObj [(''timestamp'', JStr now), (''operation'', JStr ''lora_marked_unusable''),
                      (''details'', JObj [(''lora_id'', JStr k), (''reason'', JStr reason)])]]\<rparr>)"
  using assms
  by (simp add: mark_lora_unusable_def dict_has_def dict_get_def Let_def save_lora_registry_def
      log_operation_def marked_unusable_def)

lemma invalidate_loop_result:
  assumes "invalidate_loop p reason now n ks s acc = Inr (s', out)"
    and "distinct ks"
  shows "out = acc @ map (marked_of reason now s) (filter (matches p s) ks)
       \<and> (\<forall>k. k \<noteq> ''_counter'' \<longrightarrow>
             map_of (lora_registry s') k =
               (if k \<in> set ks \<and> matches p s k then Some (marked_of reason now s k)
                else map_of (lora_registry s) k))
       \<and> chunk_registry s' = chunk_registry s
       \<and> current_model s' = current_model s
       \<and> document_files s' = document_files s"
  using assms
proof (induction ks arbitrary: s acc)
  case Nil
  then show ?case by (simp split: if_splits)
next
  case (Cons k ks)
  from Cons.prems have len: "length (lora_registry s) = n" by (simp split: if_splits)
  from Cons.prems have d: "distinct ks" and k: "k \<notin> set ks" by simp_all
  show ?case
  proof (cases "matches p s k")
    case False
    then have step: "invalidate_loop p reason now n (k # ks) s acc = invalidate_loop p reason now n ks s acc"
      using len by (auto simp: matches_def selected_def active_for_def split: json.splits)
    from Cons.IH [OF Cons.prems(1) [unfolded step] d] False k show ?thesis by auto
  next
    case True
    then obtain e where e: "dict_get (lora_registry s) k = JObj e"
      and u: "\<not> startswith_underscore k"
      and a: "dict_get e ''model_identity_hash'' = JStr p" "dict_get e ''status'' = JStr ''active''"
      by (auto simp: matches_def selected_def active_for_def split: json.splits)
    from e have me: "map_of (lora_registry s) k = Some (JObj e)" by (rule dict_get_JObj_has)
    let ?L1 = "dict_set (dict_set (lora_registry s) k (JObj (marked_unusable reason now e)))
                 ''_counter'' (JInt (lora_counter s))"
    obtain s1 where m: "mark_lora_unusable s k reason now = Inr s1"
      and L1: "lora_registry s1 = ?L1"
      and f1: "chunk_registry s1 = chunk_registry s" "current_model s1 = current_model s"
              "document_files s1 = document_files s"
      using mark_lora_unusable_present [OF me, of reason now] by simp
    have kc: "k \<noteq> ''_counter''" using u by auto
    have g1: "dict_get (lora_registry s1) k = JObj (marked_unusable reason now e)"
      using kc by (simp add: L1 dict_get_def map_of_dict_set)
    have step: "invalidate_loop p reason now n (k # ks) s acc =
                invalidate_loop p reason now n ks s1 (acc @ [JObj (marked_unusable reason now e)])"
      using len e u a m g1 by simp
    have oth: "\<And>k'. k' \<noteq> k \<Longrightarrow> k' \<noteq> ''_counter'' \<Longrightarrow>
                 map_of (lora_registry s1) k' = map_of (lora_registry s) k'"
      by (simp add: L1 map_of_dict_set)
    have und: "\<And>st. \<not> matches p st ''_counter''"
      by (simp add: matches_def selected_def split: json.splits)
    have same_m: "matches p s1 k' = matches p s k'" if "k' \<in> set ks" for k'
    proof (cases "k' = ''_counter''")
      case True then show ?thesis by (simp add: und)
    next
      case False
      with that k have "map_of (lora_registry s1) k' = map_of (lora_registry s) k'"
        by (intro oth) auto
      then show ?thesis by (simp add: matches_def dict_get_def)
    qed
    have same_v: "marked_of reason now s1 k' = marked_of reason now s k'"
      if "k' \<in> set ks" "k' \<noteq> ''_counter''" for k'
    proof -
      from that k have "map_of (lora_registry s1) k' = map_of (lora_registry s) k'"
        by (intro oth) auto
      then show ?thesis by (simp add: marked_of_def dict_get_def)
    qed
    have filt: "filter (matches p s1) ks = filter (matches p s) ks"
      by (rule filter_cong) (simp_all add: same_m)
    have mapf: "map (marked_of reason now s1) (filter (matches p s) ks)
              = map (marked_of reason now s) (filter (matches p s) ks)"
    proof (rule map_cong)
      fix x assume "x \<in> set (filter (matches p s) ks)"
      then have "x \<in> set ks" "matches p s x" by simp_all
      with und have "x \<noteq> ''_counter''" by blast
      with \<open>x \<in> set ks\<close> show "marked_of reason now s1 x = marked_of reason now s x"
        by (rule same_v)
    qed simp
    have mk: "marked_of reason now s k = JObj (marked_unusable reason now e)"
      by (simp add: marked_of_def tagged_def e)
    note ih = Cons.IH [OF Cons.prems(1) [unfolded step] d, unfolded filt mapf f1]
    have reg: "map_of (lora_registry s') k' =
               (if k' \<in> set (k # ks) \<and> matches p s k' then Some (marked_of reason now s k')
                else map_of (lora_registry s) k')" if "k' \<noteq> ''_counter''" for k'
    proof (cases "k' = k")
      case True
      with ih that k have "map_of (lora_registry s') k = map_of (lora_registry s1) k" by simp
      also have "\<dots> = Some (JObj (marked_unusable reason now e))"
        using kc by (simp add: L1 map_of_dict_set)
      finally show ?thesis using True \<open>matches p s k\<close> mk by simp
    next
      case False
      from ih that have "map_of (lora_registry s') k' =
               (if k' \<in> set ks \<and> matches p s1 k' then Some (marked_of reason now s1 k')
                else map_of (lora_registry s1) k')" by simp
      then show ?thesis using False that oth [OF False that] same_m same_v by auto
    qed
    from ih reg True mk show ?thesis by simp
  qed
qed

lemma register_model_frame:
  assumes "register_model s idn fn now = Inr (r, s1)"
  shows "lora_registry s1 = lora_registry s \<and> lora_counter s1 = lora_counter s
       \<and> chunk_registry s1 = chunk_registry s \<and> chunk_counter s1 = chunk_counter s
       \<and> document_files s1 = document_files s
       \<and> current_model s1 = Some (identity_hash idn)
       \<and> dict_get r ''identity_hash'' = JStr (identity_hash idn)"
  using assms
  by (auto simp: register_model_def Let_def dict_get_def save_model_registry_def log_operation_def
      split: json.splits sum.splits if_splits)

lemma get_restorable_chunks_frame:
  "lora_registry (snd (get_restorable_chunks s x)) = lora_registry s
   \<and> current_model (snd (get_restorable_chunks s x)) = current_model s
   \<and> document_files (snd (get_restorable_chunks s x)) = document_files s
   \<and> chunk_counter (snd (get_restorable_chunks s x)) = chunk_counter s"
  by (simp add: get_restorable_chunks_def Let_def split_beta)

lemma handle_model_switch_changed:
  assumes run: "handle_model_switch s idn fn now = Inr (result, s')"
    and ch: "dict_get result ''changed'' = JBool True"
  shows "\<exists>p r s1 s2 unusable.
           current_model s = Some p \<and> p \<noteq> [] \<and> p \<noteq> identity_hash idn
         \<and> register_model s idn fn now = Inr (r, s1)
         \<and> invalidate_loop p (''Model changed from '' @ p @ '' to '' @ identity_hash idn) now
              (length (lora_registry s1)) (map fst (lora_registry s1)) s1 [] = Inr (s2, unusable)
         \<and> lora_registry s' = lora_registry s2
         \<and> dict_get result ''unusable_loras'' = JList (map (get_or_empty ''lora_id'') unusable)"
proof (cases "register_model s idn fn now")
  case (Inl e)
  with run show ?thesis by (simp add: handle_model_switch_def)
next
  case (Inr rs)
  then obtain r s1 where reg: "register_model s idn fn now = Inr (r, s1)" by (cases rs) auto
  note fr = register_model_frame [OF reg]
  note mc = register_model_changed [OF reg]
  from fr have ih: "str_of (dict_get r ''identity_hash'') = identity_hash idn" by simp
  show ?thesis
  proof (cases "truthy (dict_get r ''model_changed'')")
    case False
    with run reg have "result = [(''changed'', JBool False),
                     (''message'', JStr ''Same model detected, no changes needed''),
                     (''model'', JObj r)]"
      by (simp add: handle_model_switch_def)
    with ch show ?thesis by (simp add: dict_get_def)
  next
    case True
    with mc obtain p where p: "current_model s = Some p" "p \<noteq> []" "p \<noteq> identity_hash idn"
      by (cases "current_model s") (auto simp: py_and_def split: if_splits)
    let ?loop = "invalidate_loop p (''Model changed from '' @ p @ '' to '' @ identity_hash idn) now
              (length (lora_registry s1)) (map fst (lora_registry s1)) s1 []"
    show ?thesis
    proof (cases ?loop)
      case (Inl e)
      with run reg True p ih show ?thesis by (simp add: handle_model_switch_def)
    next
      case (Inr su)
      then obtain s2 unusable where loop: "?loop = Inr (s2, unusable)" by (cases su) auto
      obtain rc s3 where gr: "get_restorable_chunks s2 (Some (identity_hash idn)) = (rc, s3)"
        by (cases "get_restorable_chunks s2 (Some (identity_hash idn))") auto
      have s3: "lora_registry s3 = lora_registry s2"
        using get_restorable_chunks_frame [of s2 "Some (identity_hash idn)"] gr by simp
      from run reg True p ih loop gr
      have "lora_registry s' = lora_registry s3
          \<and> dict_get result ''unusable_loras'' = JList (map (get_or_empty ''lora_id'') unusable)"
        by (auto simp: handle_model_switch_def Let_def log_operation_def dict_get_def
            split: sum.splits)
      with p reg loop s3 show ?thesis by auto
    qed
  qed
qed

lemma distinct_dict_get:
  "distinct (map fst d) \<Longrightarrow> (k, v) \<in> set d \<Longrightarrow> dict_get d k = v"
  by (simp add: dict_get_def)

lemma marked_unusable_fields:
  "dict_get (marked_unusable reason now e) ''status'' = JStr ''unusable''"
  "dict_get (marked_unusable reason now e) ''unusable_reason'' = JStr reason"
  "dict_get_default (marked_unusable reason now e) ''lora_id'' x = dict_get_default e ''lora_id'' x"
  by (simp_all add: marked_unusable_def dict_get_def dict_get_default_def map_of_dict_set)

lemma matches_keys:
  assumes d: "distinct (map fst L)" and L: "lora_registry s = L"
  shows "filter (matches p s) (map fst L) = map fst (filter (selected (active_for p)) L)"
proof -
  have "filter (matches p s) (map fst L) = map fst (filter (matches p s \<circ> fst) L)"
    by (simp add: filter_map)
  also have "filter (matches p s \<circ> fst) L = filter (selected (active_for p)) L"
  proof (rule filter_cong [OF refl])
    fix x assume "x \<in> set L"
    then have "(fst x, snd x) \<in> set L" by simp
    from distinct_dict_get [OF d this] show "(matches p s \<circ> fst) x = selected (active_for p) x"
      by (simp add: matches_def L)
  qed
  finally show ?thesis .
qed

text \<open>
  Claim C1. Let \<open>handle_model_switch\<close> return with \<open>changed\<close> true, from a
  state whose current model was \<open>previous\<close> and whose lora registry is a dictionary
  (distinct keys). Then the new identity hash differs from \<open>previous\<close>; every adapter
  record (key without leading underscore, dictionary value) with status \<open>active\<close> and
  \<open>model_identity_hash = previous\<close> has afterwards status \<open>unusable\<close> and the reason
  \<open>Model changed from <previous> to <new>\<close>; the returned \<open>unusable_loras\<close> is
  the list of the \<open>lora_id\<close> fields of exactly those records, in registry order,
  which is the list of their keys when each record carries its key as \<open>lora_id\<close> (as
  \<open>register_lora\<close> writes it); and every other entry, except the bookkeeping key
  \<open>_counter\<close>, keeps its value, so its status.
\<close>

theorem handle_model_switch_invalidates:
  assumes run: "handle_model_switch s idn friendly_name now = Inr (result, s')"
    and ch: "dict_get result ''changed'' = JBool True"
    and prev: "current_model s = Some previous"
    and dist: "distinct (map fst (lora_registry s))"
  shows "previous \<noteq> identity_hash idn
    \<and> (\<forall>k e. (k, JObj e) \<in> set (lora_registry s) \<and> \<not> startswith_underscore k
             \<and> dict_get e ''status'' = JStr ''active''
             \<and> dict_get e ''model_identity_hash'' = JStr previous \<longrightarrow>
          (\<exists>e'. map_of (lora_registry s') k = Some (JObj e')
               \<and> dict_get e' ''status'' = JStr ''unusable''
               \<and> dict_get e' ''unusable_reason''
                    = JStr (''Model changed from '' @ previous @ '' to '' @ identity_hash idn)))
    \<and> dict_get result ''unusable_loras''
         = JList (map (\<lambda>kv. get_or_empty ''lora_id'' (snd kv))
                    (filter (selected (active_for previous)) (lora_registry s)))
    \<and> ((\<forall>kv\<in>set (lora_registry s). selected (active_for previous) kv \<longrightarrow>
            get_or_empty ''lora_id'' (snd kv) = JStr (fst kv)) \<longrightarrow>
         dict_get result ''unusable_loras''
           = JList (map (\<lambda>kv. JStr (fst kv))
                      (filter (selected (active_for previous)) (lora_registry s))))
    \<and> (\<forall>k v. (k, v) \<in> set (lora_registry s) \<and> \<not> selected (active_for previous) (k, v)
             \<and> k \<noteq> ''_counter'' \<longrightarrow> map_of (lora_registry s') k = Some v)"
proof -
  let ?n = "identity_hash idn"
  let ?L = "lora_registry s"
  from handle_model_switch_changed [OF run ch] prev obtain r s1 s2 unusable where
    p: "previous \<noteq> []" "previous \<noteq> ?n"
    and reg: "register_model s idn friendly_name now = Inr (r, s1)"
    and loop: "invalidate_loop previous (''Model changed from '' @ previous @ '' to '' @ ?n) now
              (length (lora_registry s1)) (map fst (lora_registry s1)) s1 [] = Inr (s2, unusable)"
    and L': "lora_registry s' = lora_registry s2"
    and ul: "dict_get result ''unusable_loras'' = JList (map (get_or_empty ''lora_id'') unusable)"
    by auto
  define reason where "reason = ''Model changed from '' @ previous @ '' to '' @ ?n"
  from register_model_frame [OF reg] have L1: "lora_registry s1 = ?L" by simp
  from dist have dk: "distinct (map fst (lora_registry s1))" by (simp add: L1)
  note res = invalidate_loop_result [OF loop [folded reason_def] dk, unfolded L1]
  from res have out: "unusable = map (marked_of reason now s1)
                                  (filter (matches previous s1) (map fst ?L))" by simp
  from res have regs: "\<And>k. k \<noteq> ''_counter'' \<Longrightarrow>
             map_of (lora_registry s2) k =
               (if k \<in> set (map fst ?L) \<and> matches previous s1 k
                then Some (marked_of reason now s1 k) else map_of ?L k)" by simp
  have get: "\<And>k v. (k, v) \<in> set ?L \<Longrightarrow> dict_get (lora_registry s1) k = v"
    using distinct_dict_get [OF dist] by (simp add: L1)
  have sel: "\<And>k v. (k, v) \<in> set ?L \<Longrightarrow> matches previous s1 k = selected (active_for previous) (k, v)"
    by (simp add: matches_def get)
  have mk: "\<And>k v. (k, v) \<in> set ?L \<Longrightarrow>
              marked_of reason now s1 k = tagged (\<lambda>k. marked_unusable reason now) (k, v)"
    by (simp add: marked_of_def get)
  have c2: "\<exists>e'. map_of (lora_registry s') k = Some (JObj e')
               \<and> dict_get e' ''status'' = JStr ''unusable''
               \<and> dict_get e' ''unusable_reason'' = JStr reason"
    if "(k, JObj e) \<in> set ?L" "\<not> startswith_underscore k"
       "dict_get e ''status'' = JStr ''active''" "dict_get e ''model_identity_hash'' = JStr previous"
    for k e
  proof -
    from that(2) have kc: "k \<noteq> ''_counter''" by auto
    from that have m: "matches previous s1 k"
      by (simp add: sel [OF that(1)] selected_def active_for_def)
    from that(1) have "k \<in> set (map fst ?L)" by force
    with regs [OF kc] m mk [OF that(1)]
    have "map_of (lora_registry s') k = Some (JObj (marked_unusable reason now e))"
      by (simp add: L' tagged_def)
    then show ?thesis by (simp add: marked_unusable_fields)
  qed
  have keys: "filter (matches previous s1) (map fst ?L)
            = map fst (filter (selected (active_for previous)) ?L)"
    by (rule matches_keys [OF dist L1])
  have c3: "dict_get result ''unusable_loras''
         = JList (map (\<lambda>kv. get_or_empty ''lora_id'' (snd kv))
                    (filter (selected (active_for previous)) ?L))"
  proof -
    have "map (get_or_empty ''lora_id'') unusable
        = map (\<lambda>kv. get_or_empty ''lora_id'' (marked_of reason now s1 (fst kv)))
            (filter (selected (active_for previous)) ?L)"
      by (simp add: out keys comp_def)
    also have "\<dots> = map (\<lambda>kv. get_or_empty ''lora_id'' (snd kv))
                        (filter (selected (active_for previous)) ?L)"
    proof (rule map_cong [OF refl])
      fix kv assume "kv \<in> set (filter (selected (active_for previous)) ?L)"
      then have in_L: "(fst kv, snd kv) \<in> set ?L" and s: "selected (active_for previous) kv" by simp_all
      from s obtain e where e: "snd kv = JObj e" by (auto simp: selected_def split: json.splits)
      show "get_or_empty ''lora_id'' (marked_of reason now s1 (fst kv)) = get_or_empty ''lora_id'' (snd kv)"
        by (simp add: mk [OF in_L] tagged_def e marked_unusable_fields)
    qed
    finally show ?thesis by (simp add: ul)
  qed
  have c4: "(\<forall>kv\<in>set ?L. selected (active_for previous) kv \<longrightarrow>
            get_or_empty ''lora_id'' (snd kv) = JStr (fst kv)) \<longrightarrow>
         dict_get result ''unusable_loras''
           = JList (map (\<lambda>kv. JStr (fst kv)) (filter (selected (active_for previous)) ?L))"
    unfolding c3 by (auto intro!: map_cong)
  have c5: "map_of (lora_registry s') k = Some v"
    if "(k, v) \<in> set ?L" "\<not> selected (active_for previous) (k, v)" "k \<noteq> ''_counter''" for k v
  proof -
    from that have "\<not> matches previous s1 k" by (simp add: sel)
    with regs [OF that(3)] have "map_of (lora_registry s') k = map_of ?L k" by (simp add: L')
    with dist that(1) show ?thesis by simp
  qed
  from p c2 c3 c4 c5 show ?thesis unfolding reason_def by blast
qed


lemma with_lora_switch_ok:
  "case handle_model_switch with_lora model_b None ''t5'' of
     Inl e \<Rightarrow> False
   | Inr (r, s') \<Rightarrow> dict_get r ''changed'' = JBool True"
  by code_simp

lemma with_lora_facts:
  "current_model with_lora = Some ''aaaaaaaaaaaaaaaa''"
  "distinct (map fst (lora_registry with_lora))"
  "map (\<lambda>kv. get_or_empty ''lora_id'' (snd kv))
     (filter (selected (active_for ''aaaaaaaaaaaaaaaa'')) (lora_registry with_lora))
   = [JStr ''lora_0001'']"
  by code_simp+

theorem handle_model_switch_invalidates_witness:
  "\<exists>result s'. handle_model_switch with_lora model_b None ''t5'' = Inr (result, s')
      \<and> dict_get result ''unusable_loras'' = JList [JStr ''lora_0001'']"
proof -
  from with_lora_switch_ok obtain result s' where
    run: "handle_model_switch with_lora model_b None ''t5'' = Inr (result, s')"
    and ch: "dict_get result ''changed'' = JBool True"
    by (auto split: sum.splits)
  note t = handle_model_switch_invalidates [OF run ch with_lora_facts(1) with_lora_facts(2)]
  from t have "dict_get result ''unusable_loras''
         = JList (map (\<lambda>kv. get_or_empty ''lora_id'' (snd kv))
                    (filter (selected (active_for ''aaaaaaaaaaaaaaaa'')) (lora_registry with_lora)))"
    by (rule conjunct2 [THEN conjunct2, THEN conjunct1])
  with run show ?thesis unfolding with_lora_facts(3) by blast
qed

subsection \<open>Formatted counters are distinct\<close>











subsection \<open>Frames of the chunk operations\<close>
















subsection \<open>Effects of the adapter operations\<close>








subsection \<open>Preservation of the documents\<close>










subsection \<open>Adapter-model coupling\<close>

text \<open>
  Claim C4 at the failing inputs. With model \<open>a\<close> current and one active adapter of
  \<open>a\<close> the coupling holds. \<open>register_model\<close> of model \<open>b\<close> then makes \<open>b\<close>
  the current model and returns normally, and the adapter is still \<open>active\<close> with the
  hash of \<open>a\<close>: the coupling is broken in a state reached by \<open>register_model\<close> and
  \<open>register_lora\<close> alone. The same registration made through
  \<open>handle_model_switch\<close> marks the adapter \<open>unusable\<close> and keeps the coupling. An
  adapter registered before any model stays \<open>active\<close> with the hash \<open>None\<close> when
  the first model arrives, also through \<open>handle_model_switch\<close>, which takes the first
  registration for no change.
\<close>

theorem register_model_breaks_coupling:
  "(case run fresh (butlast (adapter_then (RegisterModel model_b None))) of
      Inl e \<Rightarrow> False
    | Inr s \<Rightarrow> adapter_model_coupling s)
   \<and> (case run fresh (adapter_then (RegisterModel model_b None)) of
        Inl e \<Rightarrow> False
      | Inr s \<Rightarrow> \<not> adapter_model_coupling s
                 \<and> current_model s = Some ''bbbbbbbbbbbbbbbb''
                 \<and> get_or_empty ''status'' (dict_get (lora_registry s) ''lora_0001'') = JStr ''active''
                 \<and> get_or_empty ''model_identity_hash'' (dict_get (lora_registry s) ''lora_0001'')
                     = JStr ''aaaaaaaaaaaaaaaa'')
   \<and> (case run fresh (adapter_then (HandleModelSwitch model_b None)) of
        Inl e \<Rightarrow> False
      | Inr s \<Rightarrow> adapter_model_coupling s
                 \<and> get_or_empty ''status'' (dict_get (lora_registry s) ''lora_0001'') = JStr ''unusable'')
   \<and> (case run fresh adapter_before_model of
        Inl e \<Rightarrow> False
      | Inr s \<Rightarrow> \<not> adapter_model_coupling s
                 \<and> current_model s = Some ''aaaaaaaaaaaaaaaa''
                 \<and> get_or_empty ''status'' (dict_get (lora_registry s) ''lora_0001'') = JStr ''active''
                 \<and> get_or_empty ''model_identity_hash'' (dict_get (lora_registry s) ''lora_0001'') = JNull)"
  by code_simp

end
